theory Spec2Isabelle
  imports Main "HOL-Library.AList"
begin

section \<open>Data model\<close>

text \<open>
  The two Go files at hand are the provisional node of package \<open>scheduling\<close>
  (\<open>Node\<close>, \<open>NewNode\<close>, \<open>Node.Add\<close>) and the instance provider of package \<open>aws\<close>
  (\<open>InstanceProvider\<close> with \<open>Create\<close>, \<open>Terminate\<close> and their helpers).
  Go strings are byte strings and are modelled as \<open>string\<close>; a Go map with string keys
  whose iteration order the code does not rely on is an association list read with
  \<open>map_of\<close>; a \<open>sets.String\<close> is a \<open>string set\<close>.
\<close>

subsection \<open>Resource quantities\<close>

text \<open>
  \<open>resource.Quantity\<close> comes from the Kubernetes libraries. Section 3 of the
  specification fixes it as a non-negative quantity, so it is a natural number here.
  Reading a Go map at a missing key gives the zero quantity, which is what
  \<open>quantity\<close> does.
\<close>

type_synonym Quantity = nat

type_synonym ResourceList = "(string \<times> Quantity) list"

definition quantity :: "ResourceList \<Rightarrow> string \<Rightarrow> Quantity" where
  "quantity rl name = (case map_of rl name of None \<Rightarrow> 0 | Some q \<Rightarrow> q)"

text \<open>
  Modelled from the spec: \<open>resources.IsZero\<close> is declared outside the files at hand;
  section 3 says that a zero quantity for a resource is treated as not present.
\<close>

definition IsZero :: "Quantity \<Rightarrow> bool" where
  "IsZero q = (q = 0)"

text \<open>
  Modelled from the spec: \<open>resources.Merge\<close> is declared outside the files at hand;
  section 3 says that merging resource quantities is the element-wise sum. The result
  is a fresh table, the arguments are not written to.
\<close>

definition Merge_entry :: "string \<times> Quantity \<Rightarrow> ResourceList \<Rightarrow> ResourceList" where
  "Merge_entry e result = AList.update (fst e) (quantity result (fst e) + snd e) result"

definition Merge :: "ResourceList \<Rightarrow> ResourceList \<Rightarrow> ResourceList" where
  "Merge a b = fold Merge_entry (a @ b) []"

text \<open>
  The names of the accelerator resources and of the standard resources are constants of
  the packages \<open>v1alpha1\<close> and \<open>v1\<close>; only their being distinct names matters.
\<close>

definition ResourceNVIDIAGPU :: string where "ResourceNVIDIAGPU = ''nvidia.com/gpu''"
definition ResourceAMDGPU :: string where "ResourceAMDGPU = ''amd.com/gpu''"
definition ResourceAWSNeuron :: string where "ResourceAWSNeuron = ''aws.amazon.com/neuron''"
definition ResourcePods :: string where "ResourcePods = ''pods''"
definition ResourceCPU :: string where "ResourceCPU = ''cpu''"
definition ResourceMemory :: string where "ResourceMemory = ''memory''"
definition ResourceEphemeralStorage :: string where
  "ResourceEphemeralStorage = ''ephemeral-storage''"

subsection \<open>Requirement sets\<close>

text \<open>
  Modelled from the spec: the type \<open>v1alpha5.Requirements\<close> and its methods
  (\<open>Add\<close>, \<open>Compatible\<close>, \<open>Zones\<close>, \<open>CapacityTypes\<close>) are declared outside the files at
  hand. Section 3 describes a requirement set as a mapping from a constraint key to an
  operator and a value set, compatibility as a non-empty intersection of the allowed
  values for every shared key, and merging as intersecting the allowed values per key
  (for the two exclusion operators: uniting the exclusions). A key that the set does not
  mention is not constrained.
\<close>

datatype ValueSet = OpIn "string set" | OpNotIn "string set" | OpExists

fun allowed :: "ValueSet \<Rightarrow> string set" where
  "allowed (OpIn vs) = vs"
| "allowed (OpNotIn vs) = - vs"
| "allowed OpExists = UNIV"

fun Intersection :: "ValueSet \<Rightarrow> ValueSet \<Rightarrow> ValueSet" where
  "Intersection (OpIn a) (OpIn b) = OpIn (a \<inter> b)"
| "Intersection (OpIn a) (OpNotIn b) = OpIn (a - b)"
| "Intersection (OpNotIn a) (OpIn b) = OpIn (b - a)"
| "Intersection (OpNotIn a) (OpNotIn b) = OpNotIn (a \<union> b)"
| "Intersection OpExists v = v"
| "Intersection v OpExists = v"

text \<open>An exclusion list is finite and there are infinitely many strings, so only an
  \<open>OpIn\<close> set can allow nothing.\<close>

fun nonempty :: "ValueSet \<Rightarrow> bool" where
  "nonempty (OpIn vs) = (vs \<noteq> {})"
| "nonempty (OpNotIn vs) = True"
| "nonempty OpExists = True"

type_synonym Requirements = "(string \<times> ValueSet) list"

definition Get :: "Requirements \<Rightarrow> string \<Rightarrow> ValueSet" where
  "Get r key = (case map_of r key of None \<Rightarrow> OpExists | Some v \<Rightarrow> v)"

definition LabelTopologyZone :: string where
  "LabelTopologyZone = ''topology.kubernetes.io/zone''"

definition LabelCapacityType :: string where
  "LabelCapacityType = ''karpenter.sh/capacity-type''"

definition LabelInstanceTypeStable :: string where
  "LabelInstanceTypeStable = ''node.kubernetes.io/instance-type''"

definition Zones :: "Requirements \<Rightarrow> string set" where
  "Zones r = allowed (Get r LabelTopologyZone)"

definition CapacityTypes :: "Requirements \<Rightarrow> string set" where
  "CapacityTypes r = allowed (Get r LabelCapacityType)"

definition Requirements_Add_entry :: "string \<times> ValueSet \<Rightarrow> Requirements \<Rightarrow> Requirements" where
  "Requirements_Add_entry e r = AList.update (fst e) (Intersection (Get r (fst e)) (snd e)) r"

definition Requirements_Add :: "Requirements \<Rightarrow> Requirements \<Rightarrow> Requirements" where
  "Requirements_Add r other = fold Requirements_Add_entry other r"

subsection \<open>Errors\<close>

text \<open>
  The code builds its errors with \<open>fmt.Errorf\<close>; each message is a constructor here,
  named after the error kind of section 7 of the specification, and \<open>Wrapped\<close> is
  \<open>fmt.Errorf("<context>, %w", err)\<close>. An error of the provider's API is an
  \<open>api_error\<close>.
\<close>

datatype api_error = NotFound string | OtherFailure string

text \<open>
  Modelled from the spec: \<open>isNotFound\<close> is declared outside the files at hand; it
  recognises the provider's answer that the resource is already gone.
\<close>

fun isNotFound :: "api_error \<Rightarrow> bool" where
  "isNotFound (NotFound m) = True"
| "isNotFound (OtherFailure m) = False"

datatype error =
    IncompatibleConstraints string
  | NoInstanceTypeSatisfiesDemand
  | NoOfferingsAvailable
  | Errorf string
  | Multi "error list"
  | FleetRequestFailed "error option"
  | ExpectedInstance
  | PrivateDnsNameNotSet string
  | InstanceLookupFailed "error list"
  | MalformedProviderID string
  | CollaboratorFailure string
  | Api api_error
  | Wrapped string error

subsection \<open>Machine shapes\<close>

definition CapacityTypeSpot :: string where "CapacityTypeSpot = ''spot''"
definition CapacityTypeOnDemand :: string where "CapacityTypeOnDemand = ''on-demand''"

record Offering =
  CapacityType :: string
  Zone :: string

text \<open>\<open>cloudprovider.InstanceType\<close> is an interface; the record holds what its methods
  \<open>Name()\<close>, \<open>Resources()\<close> and \<open>Offerings()\<close> return.\<close>

record InstanceType =
  Name :: string
  Resources :: ResourceList
  Offerings :: "Offering list"

record Constraints =
  Requirements :: Requirements
  Tags :: "(string \<times> string) list"

section \<open>The instance provider: pure helpers\<close>

subsection \<open>filterInstanceTypes\<close>

definition isGeneric :: "InstanceType \<Rightarrow> bool" where
  "isGeneric it =
     (let itRes = Resources it in
        IsZero (quantity itRes ResourceAWSNeuron) \<and>
        IsZero (quantity itRes ResourceAMDGPU) \<and>
        IsZero (quantity itRes ResourceNVIDIAGPU))"

fun genericInstanceTypes_loop :: "InstanceType list \<Rightarrow> InstanceType list \<Rightarrow> InstanceType list" where
  "genericInstanceTypes_loop [] genericInstanceTypes = genericInstanceTypes"
| "genericInstanceTypes_loop (it # rest) genericInstanceTypes =
     genericInstanceTypes_loop rest
       (if isGeneric it then genericInstanceTypes @ [it] else genericInstanceTypes)"

definition filterInstanceTypes :: "InstanceType list \<Rightarrow> InstanceType list" where
  "filterInstanceTypes instanceTypes =
     (let genericInstanceTypes = genericInstanceTypes_loop instanceTypes [] in
        if length genericInstanceTypes \<noteq> 0 then genericInstanceTypes else instanceTypes)"

subsection \<open>getCapacityType\<close>

fun spotOffering_loop :: "string set \<Rightarrow> Offering list \<Rightarrow> bool" where
  "spotOffering_loop zones [] = False"
| "spotOffering_loop zones (offering # rest) =
     (if Zone offering \<in> zones \<and> CapacityType offering = CapacityTypeSpot then True
      else spotOffering_loop zones rest)"

fun spotInstanceType_loop :: "string set \<Rightarrow> InstanceType list \<Rightarrow> bool" where
  "spotInstanceType_loop zones [] = False"
| "spotInstanceType_loop zones (instanceType # rest) =
     (if spotOffering_loop zones (Offerings instanceType) then True
      else spotInstanceType_loop zones rest)"

definition getCapacityType :: "Constraints \<Rightarrow> InstanceType list \<Rightarrow> string" where
  "getCapacityType constraints instanceTypes =
     (if CapacityTypeSpot \<in> CapacityTypes (Requirements constraints) then
        (if spotInstanceType_loop (Zones (Requirements constraints)) instanceTypes
         then CapacityTypeSpot else CapacityTypeOnDemand)
      else CapacityTypeOnDemand)"

subsection \<open>getInstanceID\<close>

text \<open>\<open>strings.Split(s, "/")\<close>: the segments between the separators, one more than
  there are separators; the empty string gives one empty segment.\<close>

fun strings_Split :: "string \<Rightarrow> char \<Rightarrow> string list" where
  "strings_Split [] sep = [[]]"
| "strings_Split (c # cs) sep =
     (if c = sep then [] # strings_Split cs sep
      else (case strings_Split cs sep of
              [] \<Rightarrow> [[c]]
            | seg # segs \<Rightarrow> (c # seg) # segs))"

definition getInstanceID :: "string \<Rightarrow> error + string" where
  "getInstanceID providerID =
     (let ids = strings_Split providerID CHR ''/'' in
        if length ids < 5 then Inl (MalformedProviderID providerID)
        else Inr (ids ! 4))"

section \<open>The provisional node\<close>

text \<open>
  A workload unit. The code reads two things off a pod, through helpers declared outside
  the files at hand: its requirement set (\<open>v1alpha5.NewPodRequirements\<close>) and its
  resource demand (\<open>resources.RequestsForPods\<close>). The record holds both.
\<close>

record Pod =
  podName :: string
  podRequirements :: Requirements
  podRequests :: ResourceList

definition NewPodRequirements :: "Pod \<Rightarrow> Requirements" where
  "NewPodRequirements pod = podRequirements pod"

definition RequestsForPods :: "Pod \<Rightarrow> ResourceList" where
  "RequestsForPods pod = podRequests pod"

text \<open>
  Modelled from the spec: \<open>Requirements.Compatible\<close> is declared outside the files at
  hand. Section 3: two requirement sets are compatible if, for every shared key, the
  intersection of the allowed values is non-empty. The error names the first key in
  conflict.
\<close>

definition Compatible :: "Requirements \<Rightarrow> Requirements \<Rightarrow> error option" where
  "Compatible r other =
     (case filter (\<lambda>key. key \<in> set (map fst other) \<and>
                          \<not> nonempty (Intersection (Get r key) (Get other key)))
                  (map fst r) of
        [] \<Rightarrow> None
      | key # _ \<Rightarrow> Some (IncompatibleConstraints key))"

text \<open>
  Modelled from the spec: \<open>cloudprovider.FilterInstanceTypes\<close> is declared outside the
  files at hand. Section 4.1, step 5: keep the shapes that (a) have allocatable
  resource quantities at least the running total for every demanded resource and (b)
  retain at least one offering whose zone is in the requirement set's allowed zones and
  whose purchase kind is allowed.
\<close>

definition Fits :: "ResourceList \<Rightarrow> ResourceList \<Rightarrow> bool" where
  "Fits requests allocatable =
     list_all (\<lambda>name. quantity requests name \<le> quantity allocatable name) (map fst requests)"

definition hasOffering :: "Requirements \<Rightarrow> InstanceType \<Rightarrow> bool" where
  "hasOffering r it =
     list_ex (\<lambda>offering. Zone offering \<in> Zones r \<and> CapacityType offering \<in> CapacityTypes r)
             (Offerings it)"

definition FilterInstanceTypes ::
  "InstanceType list \<Rightarrow> Requirements \<Rightarrow> ResourceList \<Rightarrow> InstanceType list" where
  "FilterInstanceTypes instanceTypes r requests =
     filter (\<lambda>it. Fits requests (Resources it) \<and> hasOffering r it) instanceTypes"

record Node =
  Constraints :: Constraints
  InstanceTypeOptions :: "InstanceType list"
  Pods :: "Pod list"
  requests :: ResourceList

definition NewNode :: "Constraints \<Rightarrow> ResourceList \<Rightarrow> InstanceType list \<Rightarrow> Node" where
  "NewNode constraints daemonResources instanceTypes =
     \<lparr> Constraints = constraints,
       InstanceTypeOptions = instanceTypes,
       Pods = [],
       requests = daemonResources \<rparr>"

text \<open>
  \<open>Node.Add\<close> writes to its receiver; the model returns the error (\<open>None\<close> is Go's
  \<open>nil\<close>) together with the node as it stands when the call returns.
\<close>

definition Add :: "Node \<Rightarrow> Pod \<Rightarrow> error option \<times> Node" where
  "Add n pod =
     (let podRequirements = NewPodRequirements pod in
      case (if length (Pods n) \<noteq> 0
            then Compatible (Requirements (Constraints n)) podRequirements else None) of
        Some err \<Rightarrow> (Some err, n)
      | None \<Rightarrow>
          (let requirements = Requirements_Add (Requirements (Constraints n)) podRequirements;
               requests' = Merge (requests n) (RequestsForPods pod);
               instanceTypes = FilterInstanceTypes (InstanceTypeOptions n) requirements requests'
           in if length instanceTypes = 0 then (Some NoInstanceTypeSatisfiesDemand, n)
              else (None,
                    n\<lparr> Pods := Pods n @ [pod],
                       InstanceTypeOptions := instanceTypes,
                       requests := requests',
                       Constraints := (Constraints n)\<lparr> Requirements := requirements \<rparr> \<rparr>)))"

text \<open>Admitting a sequence of units one after the other, stopping at the first
  failure.\<close>

fun AddAll :: "Node \<Rightarrow> Pod list \<Rightarrow> error + Node" where
  "AddAll n [] = Inr n"
| "AddAll n (pod # pods) =
     (case Add n pod of
        (Some err, n') \<Rightarrow> Inl err
      | (None, n') \<Rightarrow> AddAll n' pods)"

section \<open>The instance provider: requests, responses and effects\<close>

subsection \<open>What goes to the provider and what comes back\<close>

record Subnet =
  SubnetId :: string
  AvailabilityZone :: string
  AvailableIpAddressCount :: int

text \<open>\<open>ec2.FleetLaunchTemplateOverridesRequest\<close>. \<open>Priority\<close> is a \<open>*float64\<close> that is
  either \<open>nil\<close> or the conversion of a slice index; it is kept as that index.\<close>

record Override =
  overrideInstanceType :: string
  overrideSubnetId :: string
  overrideAvailabilityZone :: string
  Priority :: "nat option"

record LaunchTemplateConfig =
  Overrides :: "Override list"
  LaunchTemplateName :: string
  Version :: string

record CreateFleetInput =
  fleetType :: string
  LaunchTemplateConfigs :: "LaunchTemplateConfig list"
  DefaultTargetCapacityType :: string
  TotalTargetCapacity :: int
  TagSpecifications :: "(string \<times> (string \<times> string) list) list"
  SpotOptions :: "string option"
  OnDemandOptions :: "string option"

text \<open>\<open>ec2.CreateFleetError\<close>. The override that the error is about hangs on two
  pointers, \<open>LaunchTemplateAndOverrides\<close> and, in there, \<open>Overrides\<close>; either may be
  \<open>nil\<close>, which is \<open>None\<close> here. The code reads the strings through
  \<open>aws.StringValue\<close>, so an absent string is the empty one.\<close>

record FleetLaunchTemplateOverrides =
  fleetInstanceType :: string
  fleetAvailabilityZone :: string

record LaunchTemplateAndOverridesResponse =
  responseOverrides :: "FleetLaunchTemplateOverrides option"

record CreateFleetError =
  ErrorCode :: string
  ErrorMessage :: string
  LaunchTemplateAndOverrides :: "LaunchTemplateAndOverridesResponse option"

record CreateFleetInstance =
  InstanceIds :: "string list"

record CreateFleetOutput =
  Errors :: "CreateFleetError list"
  Instances :: "CreateFleetInstance list"

record Instance =
  InstanceId :: string
  PrivateDnsName :: string
  instanceInstanceType :: string
  placementAvailabilityZone :: string
  SpotInstanceRequestId :: "string option"
  Architecture :: string
  ImageId :: string

record Reservation =
  reservationInstances :: "Instance list"

text \<open>The node descriptor that \<open>Create\<close> returns (\<open>v1.Node\<close>).\<close>

record NodeSystemInfo =
  infoArchitecture :: string
  OSImage :: string
  OperatingSystem :: string

record v1Node =
  nodeName :: string
  Labels :: "(string \<times> string) list"
  ProviderID :: string
  Allocatable :: ResourceList
  Capacity :: ResourceList
  NodeInfo :: NodeSystemInfo

subsection \<open>The provider, its collaborators and the observable effects\<close>

text \<open>
  The calls that leave the process are recorded in order, and so are the writes to the
  unavailable-offering cache (\<open>InstanceTypeProvider.CacheUnavailable\<close>, declared outside
  the files at hand: the model keeps the sequence of triples written).
\<close>

datatype api_call =
    CreateFleetCall CreateFleetInput
  | DescribeInstancesCall "string list"
  | TerminateInstancesCall "string list"

record World =
  calls :: "api_call list"
  unavailableOfferings :: "(string \<times> string \<times> string) list"

text \<open>
  The provider's API and the two collaborators are given by what they answer. The answer
  to \<open>DescribeInstances\<close> may change from one call to the next (the API is eventually
  consistent), so it also depends on how many such calls were made before.
\<close>

record InstanceProvider =
  CreateFleetWithContext :: "CreateFleetInput \<Rightarrow> api_error + CreateFleetOutput"
  DescribeInstancesWithContext :: "nat \<Rightarrow> string list \<Rightarrow> api_error + Reservation list"
  TerminateInstancesWithContext :: "string list \<Rightarrow> api_error option"
  subnetProviderGet :: "Constraints \<Rightarrow> error + Subnet list"
  launchTemplateProviderGet ::
    "Constraints \<Rightarrow> InstanceType list \<Rightarrow> (string \<times> string) list
       \<Rightarrow> error + (string \<times> InstanceType list) list"

datatype NodeNameConvention = IPName | ResourceName

record Context =
  ClusterName :: string
  AWSNodeNameConvention :: NodeNameConvention

text \<open>What the two files use and do not declare: the cap on the number of shapes in
  one request and the table of architecture names, both package-level values, and
  \<open>strings.ToLower\<close> of the Go library, whose Unicode case mapping is taken as given.\<close>

record Package =
  MaxInstanceTypes :: nat
  AWSToKubeArchitectures :: "(string \<times> string) list"
  ToLower :: "string \<Rightarrow> string"

definition InsufficientCapacityErrorCode :: string where
  "InsufficientCapacityErrorCode = ''InsufficientInstanceCapacity''"

definition OperatingSystemLinux :: string where
  "OperatingSystemLinux = ''linux''"

subsection \<open>getOverrides\<close>

text \<open>
  The subnets are sorted by ascending count of available addresses and written into a
  map by zone, so the last subnet of a zone wins. Go's \<open>sort.Slice\<close> is not stable: among
  subnets of one zone with equal counts the code does not fix which one wins; the model
  takes the order a stable sort gives.
\<close>

definition zonalSubnets :: "Subnet list \<Rightarrow> (string \<times> Subnet) list" where
  "zonalSubnets subnets =
     fold (\<lambda>subnet m. AList.update (AvailabilityZone subnet) subnet m)
          (sort_key AvailableIpAddressCount subnets) []"

fun overrides_offerings ::
  "(string \<times> Subnet) list \<Rightarrow> string set \<Rightarrow> string \<Rightarrow> nat \<Rightarrow> InstanceType
     \<Rightarrow> Offering list \<Rightarrow> Override list" where
  "overrides_offerings zs zones capacityType i instanceType [] = []"
| "overrides_offerings zs zones capacityType i instanceType (offering # rest) =
     (if capacityType \<noteq> CapacityType offering
        then overrides_offerings zs zones capacityType i instanceType rest
      else if Zone offering \<notin> zones
        then overrides_offerings zs zones capacityType i instanceType rest
      else (case map_of zs (Zone offering) of
              None \<Rightarrow> overrides_offerings zs zones capacityType i instanceType rest
            | Some subnet \<Rightarrow>
                \<lparr> overrideInstanceType = Name instanceType,
                  overrideSubnetId = SubnetId subnet,
                  overrideAvailabilityZone = AvailabilityZone subnet,
                  Priority = (if capacityType = CapacityTypeSpot then Some i else None) \<rparr>
                # overrides_offerings zs zones capacityType i instanceType rest))"

fun overrides_instanceTypes ::
  "(string \<times> Subnet) list \<Rightarrow> string set \<Rightarrow> string \<Rightarrow> nat \<Rightarrow> InstanceType list
     \<Rightarrow> Override list" where
  "overrides_instanceTypes zs zones capacityType i [] = []"
| "overrides_instanceTypes zs zones capacityType i (instanceType # rest) =
     overrides_offerings zs zones capacityType i instanceType (Offerings instanceType)
     @ overrides_instanceTypes zs zones capacityType (Suc i) rest"

definition getOverrides ::
  "InstanceType list \<Rightarrow> Subnet list \<Rightarrow> string set \<Rightarrow> string \<Rightarrow> Override list" where
  "getOverrides instanceTypeOptions subnets zones capacityType =
     overrides_instanceTypes (zonalSubnets subnets) zones capacityType 0 instanceTypeOptions"

subsection \<open>getLaunchTemplateConfigs\<close>

text \<open>The launch templates come as a Go map from template name to shapes; the loop
  visits them in an order the code does not fix, here the order of the list.\<close>

fun launchTemplateConfigs_loop ::
  "Subnet list \<Rightarrow> string set \<Rightarrow> string \<Rightarrow> (string \<times> InstanceType list) list
     \<Rightarrow> LaunchTemplateConfig list" where
  "launchTemplateConfigs_loop subnets zones capacityType [] = []"
| "launchTemplateConfigs_loop subnets zones capacityType ((launchTemplateName, instanceTypes) # rest) =
     (let launchTemplateConfig =
            \<lparr> Overrides = getOverrides instanceTypes subnets zones capacityType,
              LaunchTemplateName = launchTemplateName,
              Version = ''$Latest'' \<rparr>
      in if length (Overrides launchTemplateConfig) > 0
         then launchTemplateConfig # launchTemplateConfigs_loop subnets zones capacityType rest
         else launchTemplateConfigs_loop subnets zones capacityType rest)"

definition getLaunchTemplateConfigs ::
  "InstanceProvider \<Rightarrow> Constraints \<Rightarrow> InstanceType list \<Rightarrow> string
     \<Rightarrow> error + LaunchTemplateConfig list" where
  "getLaunchTemplateConfigs p constraints instanceTypes capacityType =
     (case subnetProviderGet p constraints of
        Inl err \<Rightarrow> Inl (Wrapped ''getting subnets'' err)
      | Inr subnets \<Rightarrow>
          (case launchTemplateProviderGet p constraints instanceTypes
                  [(LabelCapacityType, capacityType)] of
             Inl err \<Rightarrow> Inl (Wrapped ''getting launch templates'' err)
           | Inr launchTemplates \<Rightarrow>
               (let launchTemplateConfigs =
                      launchTemplateConfigs_loop subnets (Zones (Requirements constraints))
                        capacityType launchTemplates
                in if length launchTemplateConfigs = 0 then Inl NoOfferingsAvailable
                   else Inr launchTemplateConfigs)))"

subsection \<open>combineFleetErrors and the cache of unavailable offerings\<close>

text \<open>A Go \<open>error\<close> value that may be \<open>nil\<close> is an \<open>error option\<close>.
  \<open>multierr.Append\<close> of the library go.uber.org/multierr joins two errors and gives the
  second one back when the first is \<open>nil\<close>.\<close>

fun multierr_Append :: "error option \<Rightarrow> error \<Rightarrow> error option" where
  "multierr_Append None err = Some err"
| "multierr_Append (Some (Multi errs)) err = Some (Multi (errs @ [err]))"
| "multierr_Append (Some e) err = Some (Multi [e, err])"

text \<open>The distinct texts are kept in a \<open>sets.String\<close> and read back in the order of a
  Go map, which the code does not fix; the model reads them in the order of their first
  occurrence. Each text is handed to \<open>fmt.Errorf\<close> as its format string, with no
  argument: \<open>Errorf\<close> holds that format string, and what the error prints is what
  \<open>fmt\<close> makes of it (a text without a percent sign is printed as it is).\<close>

definition combineFleetErrors :: "CreateFleetError list \<Rightarrow> error option" where
  "combineFleetErrors errors =
     (let unique = remdups (map (\<lambda>err. ErrorCode err @ '': '' @ ErrorMessage err) errors);
          errs = fold (\<lambda>errorCode errs. multierr_Append errs (Errorf errorCode)) unique None
      in Some (FleetRequestFailed errs))"

definition CacheUnavailable :: "string \<Rightarrow> string \<Rightarrow> string \<Rightarrow> World \<Rightarrow> World" where
  "CacheUnavailable instanceType zone capacityType w =
     w\<lparr> unavailableOfferings := unavailableOfferings w @ [(instanceType, zone, capacityType)] \<rparr>"

text \<open>
  For an error with the insufficient-capacity code the loop reads
  \<open>err.LaunchTemplateAndOverrides.Overrides.InstanceType\<close> without testing either
  pointer, so the Go runtime panics when one of them is \<open>nil\<close>. The result is the
  message of the panic, if there was one, and the state at that moment: the entries
  written before the panic stay, the errors after it are not looked at.
\<close>

definition nilPointerDereference :: string where
  "nilPointerDereference = ''runtime error: invalid memory address or nil pointer dereference''"

fun updateUnavailableOfferingsCache ::
  "CreateFleetError list \<Rightarrow> string \<Rightarrow> World \<Rightarrow> string option \<times> World" where
  "updateUnavailableOfferingsCache [] capacityType w = (None, w)"
| "updateUnavailableOfferingsCache (err # rest) capacityType w =
     (if InsufficientCapacityErrorCode = ErrorCode err then
        (case LaunchTemplateAndOverrides err of
           None \<Rightarrow> (Some nilPointerDereference, w)
         | Some launchTemplateAndOverrides \<Rightarrow>
             (case responseOverrides launchTemplateAndOverrides of
                None \<Rightarrow> (Some nilPointerDereference, w)
              | Some overrides \<Rightarrow>
                  updateUnavailableOfferingsCache rest capacityType
                    (CacheUnavailable (fleetInstanceType overrides)
                       (fleetAvailabilityZone overrides) capacityType w)))
      else updateUnavailableOfferingsCache rest capacityType w)"

subsection \<open>launchInstance\<close>

text \<open>
  Modelled from the spec: \<open>v1alpha1.MergeTags\<close> is declared outside the files at hand;
  section 4.2, step 8 says that the request is tagged with the cluster-ownership tags.
  The tags of the later table replace those of the earlier one.
\<close>

definition MergeTags :: "(string \<times> string) list \<Rightarrow> (string \<times> string) list \<Rightarrow> (string \<times> string) list" where
  "MergeTags tags extra = fold (\<lambda>kv m. AList.update (fst kv) (snd kv) m) extra tags"

definition createFleetInput ::
  "Context \<Rightarrow> Constraints \<Rightarrow> LaunchTemplateConfig list \<Rightarrow> string \<Rightarrow> CreateFleetInput" where
  "createFleetInput ctx constraints launchTemplateConfigs capacityType =
     (let tags = MergeTags (Tags constraints)
                   [(''kubernetes.io/cluster/'' @ ClusterName ctx, ''owned'')]
      in \<lparr> fleetType = ''instant'',
           LaunchTemplateConfigs = launchTemplateConfigs,
           DefaultTargetCapacityType = capacityType,
           TotalTargetCapacity = 1,
           TagSpecifications = [(''instance'', tags), (''volume'', tags)],
           SpotOptions = (if capacityType = CapacityTypeSpot
                          then Some ''capacity-optimized-prioritized'' else None),
           OnDemandOptions = (if capacityType = CapacityTypeSpot
                              then None else Some ''lowest-price'') \<rparr>)"

text \<open>\<open>launchInstance\<close> returns a \<open>*string\<close> and an \<open>error\<close>, either of which may be
  \<open>nil\<close>, unless the update of the cache panics. The instance ids of a response are
  the strings the SDK decoded.\<close>

datatype launch_result =
    Launched "string option" "error option"
  | LaunchPanicked string

definition launchInstance ::
  "InstanceProvider \<Rightarrow> Context \<Rightarrow> Constraints \<Rightarrow> InstanceType list \<Rightarrow> World
     \<Rightarrow> launch_result \<times> World" where
  "launchInstance p ctx constraints instanceTypes w =
     (let capacityType = getCapacityType constraints instanceTypes in
      case getLaunchTemplateConfigs p constraints instanceTypes capacityType of
        Inl err \<Rightarrow> (Launched None (Some (Wrapped ''getting launch template configs'' err)), w)
      | Inr launchTemplateConfigs \<Rightarrow>
          (let input = createFleetInput ctx constraints launchTemplateConfigs capacityType;
               w1 = w\<lparr> calls := calls w @ [CreateFleetCall input] \<rparr>
           in case CreateFleetWithContext p input of
                Inl err \<Rightarrow> (Launched None (Some (Wrapped ''creating fleet'' (Api err))), w1)
              | Inr createFleetOutput \<Rightarrow>
                  (case updateUnavailableOfferingsCache (Errors createFleetOutput)
                          capacityType w1 of
                     (Some msg, w2) \<Rightarrow> (LaunchPanicked msg, w2)
                   | (None, w2) \<Rightarrow>
                       (case Instances createFleetOutput of
                          [] \<Rightarrow> (Launched None (combineFleetErrors (Errors createFleetOutput)), w2)
                        | first # _ \<Rightarrow>
                            (case InstanceIds first of
                               [] \<Rightarrow> (Launched None (combineFleetErrors (Errors createFleetOutput)),
                                      w2)
                             | instanceId # _ \<Rightarrow> (Launched (Some instanceId) None, w2))))))"

subsection \<open>getInstance and the retry around it\<close>

definition describeCount :: "World \<Rightarrow> nat" where
  "describeCount w =
     length (filter (\<lambda>c. case c of DescribeInstancesCall ids \<Rightarrow> True | _ \<Rightarrow> False) (calls w))"

definition getInstance ::
  "InstanceProvider \<Rightarrow> Context \<Rightarrow> string \<Rightarrow> World \<Rightarrow> (error + Instance) \<times> World" where
  "getInstance p ctx instanceId w =
     (let w1 = w\<lparr> calls := calls w @ [DescribeInstancesCall [instanceId]] \<rparr> in
      case DescribeInstancesWithContext p (describeCount w) [instanceId] of
        Inl err \<Rightarrow>
          (if isNotFound err then (Inl (Api err), w1)
           else (Inl (Wrapped ''failed to describe ec2 instances'' (Api err)), w1))
      | Inr reservations \<Rightarrow>
          (case reservations of
             [reservation] \<Rightarrow>
               (case reservationInstances reservation of
                  [instance] \<Rightarrow>
                    (if AWSNodeNameConvention ctx = ResourceName then (Inr instance, w1)
                     else if length (PrivateDnsName instance) = 0
                       then (Inl (PrivateDnsNameNotSet (InstanceId instance)), w1)
                     else (Inr instance, w1))
                | _ \<Rightarrow> (Inl ExpectedInstance, w1))
           | _ \<Rightarrow> (Inl ExpectedInstance, w1)))"

text \<open>\<open>retry.Do\<close> of the library github.com/avast/retry-go with \<open>retry.Attempts(6)\<close>:
  the function is tried until it succeeds, at most as often as the first argument says,
  and after the last failure the errors of all attempts are returned together. The delay
  between two attempts is not part of the model.\<close>

fun retry_getInstance ::
  "nat \<Rightarrow> InstanceProvider \<Rightarrow> Context \<Rightarrow> string \<Rightarrow> error list \<Rightarrow> World
     \<Rightarrow> (error + Instance) \<times> World" where
  "retry_getInstance 0 p ctx instanceId errs w = (Inl (InstanceLookupFailed errs), w)"
| "retry_getInstance (Suc attempts) p ctx instanceId errs w =
     (case getInstance p ctx instanceId w of
        (Inr instance, w') \<Rightarrow> (Inr instance, w')
      | (Inl err, w') \<Rightarrow> retry_getInstance attempts p ctx instanceId (errs @ [err]) w')"

subsection \<open>instanceToNode\<close>

definition instanceCapacityType :: "Instance \<Rightarrow> string" where
  "instanceCapacityType instance =
     (if SpotInstanceRequestId instance \<noteq> None then CapacityTypeSpot else CapacityTypeOnDemand)"

definition nodeResources :: "InstanceType \<Rightarrow> ResourceList" where
  "nodeResources instanceType =
     filter (\<lambda>entry. \<not> IsZero (snd entry))
       (map (\<lambda>resourceName. (resourceName, quantity (Resources instanceType) resourceName))
          [ResourcePods, ResourceCPU, ResourceMemory, ResourceEphemeralStorage,
           ResourceNVIDIAGPU, ResourceAMDGPU, ResourceAWSNeuron])"

text \<open>The result is \<open>Inl\<close> with the message when the function panics.\<close>

fun instanceToNode ::
  "Package \<Rightarrow> Context \<Rightarrow> Instance \<Rightarrow> InstanceType list \<Rightarrow> string + v1Node" where
  "instanceToNode pkg ctx instance [] =
     Inl (''unrecognized instance type '' @ instanceInstanceType instance)"
| "instanceToNode pkg ctx instance (instanceType # rest) =
     (if Name instanceType = instanceInstanceType instance then
        (let nodeName' = (if AWSNodeNameConvention ctx = ResourceName then InstanceId instance
                          else ToLower pkg (PrivateDnsName instance));
             resources = nodeResources instanceType
         in Inr \<lparr> nodeName = nodeName',
                  Labels = [(LabelTopologyZone, placementAvailabilityZone instance),
                            (LabelInstanceTypeStable, instanceInstanceType instance),
                            (LabelCapacityType, instanceCapacityType instance)],
                  ProviderID = ''aws:///'' @ placementAvailabilityZone instance @ ''/''
                               @ InstanceId instance,
                  Allocatable = resources,
                  Capacity = resources,
                  NodeInfo = \<lparr> infoArchitecture =
                                 (case map_of (AWSToKubeArchitectures pkg) (Architecture instance) of
                                    None \<Rightarrow> [] | Some a \<Rightarrow> a),
                               OSImage = ImageId instance,
                               OperatingSystem = OperatingSystemLinux \<rparr> \<rparr>)
      else instanceToNode pkg ctx instance rest)"

subsection \<open>Create and Terminate\<close>

datatype create_result =
    Returned "v1Node option" "error option"
  | Panicked string

definition Create ::
  "Package \<Rightarrow> InstanceProvider \<Rightarrow> Context \<Rightarrow> Constraints \<Rightarrow> InstanceType list \<Rightarrow> World
     \<Rightarrow> create_result \<times> World" where
  "Create pkg p ctx constraints instanceTypes0 w =
     (let filtered = filterInstanceTypes instanceTypes0;
          instanceTypes = (if length filtered > MaxInstanceTypes pkg
                           then take (MaxInstanceTypes pkg) filtered else filtered)
      in case launchInstance p ctx constraints instanceTypes w of
           (LaunchPanicked msg, w1) \<Rightarrow> (Panicked msg, w1)
         | (Launched _ (Some err), w1) \<Rightarrow> (Returned None (Some err), w1)
         | (Launched instanceId None, w1) \<Rightarrow>
             (case retry_getInstance 6 p ctx (case instanceId of None \<Rightarrow> [] | Some s \<Rightarrow> s) [] w1 of
                (Inl err, w2) \<Rightarrow> (Returned None (Some err), w2)
              | (Inr instance, w2) \<Rightarrow>
                  (case instanceToNode pkg ctx instance instanceTypes of
                     Inl msg \<Rightarrow> (Panicked msg, w2)
                   | Inr node \<Rightarrow> (Returned (Some node) None, w2))))"

definition Terminate ::
  "InstanceProvider \<Rightarrow> Context \<Rightarrow> v1Node \<Rightarrow> World \<Rightarrow> error option \<times> World" where
  "Terminate p ctx node w =
     (case getInstanceID (ProviderID node) of
        Inl err \<Rightarrow> (Some (Wrapped (''getting instance ID for node '' @ nodeName node) err), w)
      | Inr instanceId \<Rightarrow>
          (let w1 = w\<lparr> calls := calls w @ [TerminateInstancesCall [instanceId]] \<rparr> in
           case TerminateInstancesWithContext p [instanceId] of
             Some err \<Rightarrow>
               (if isNotFound err then (None, w1)
                else (Some (Wrapped (''terminating instance '' @ nodeName node) (Api err)), w1))
           | None \<Rightarrow> (None, w1)))"

section \<open>Cumulative state of a provisional node\<close>

text \<open>The requirement set and the resource total that a node started with, after the
  given units were merged into them one after the other.\<close>

definition cumulativeRequirements :: "Requirements \<Rightarrow> Pod list \<Rightarrow> Requirements" where
  "cumulativeRequirements r pods =
     fold (\<lambda>pod r'. Requirements_Add r' (NewPodRequirements pod)) pods r"

definition cumulativeRequests :: "ResourceList \<Rightarrow> Pod list \<Rightarrow> ResourceList" where
  "cumulativeRequests q pods = fold (\<lambda>pod q'. Merge q' (RequestsForPods pod)) pods q"

definition keeps :: "Requirements \<Rightarrow> ResourceList \<Rightarrow> InstanceType \<Rightarrow> bool" where
  "keeps r q it = (Fits q (Resources it) \<and> hasOffering r it)"

section \<open>Notions used in the statements\<close>

text \<open>The list of shapes that \<open>Create\<close> goes on with after its first two steps, the
  accelerator filter and the cut to \<open>MaxInstanceTypes\<close>: it is what \<open>Create\<close> names
  \<open>instanceTypes\<close> from then on.\<close>

definition offeredInstanceTypes :: "Package \<Rightarrow> InstanceType list \<Rightarrow> InstanceType list" where
  "offeredInstanceTypes pkg instanceTypes0 =
     (let filtered = filterInstanceTypes instanceTypes0
      in if length filtered > MaxInstanceTypes pkg
         then take (MaxInstanceTypes pkg) filtered else filtered)"

text \<open>The override that an error of the response carries, if it carries one; whether an
  error can be read by the loop that updates the cache (every error can, but one with the
  insufficient-capacity code and no override); and the triple that an override stands
  for.\<close>

definition errorOverrides :: "CreateFleetError \<Rightarrow> FleetLaunchTemplateOverrides option" where
  "errorOverrides err =
     (case LaunchTemplateAndOverrides err of
        None \<Rightarrow> None
      | Some launchTemplateAndOverrides \<Rightarrow> responseOverrides launchTemplateAndOverrides)"

definition insufficientCapacity :: "CreateFleetError \<Rightarrow> bool" where
  "insufficientCapacity err = (ErrorCode err = InsufficientCapacityErrorCode)"

definition readable :: "CreateFleetError \<Rightarrow> bool" where
  "readable err = (\<not> insufficientCapacity err \<or> errorOverrides err \<noteq> None)"

definition cacheEntry :: "string \<Rightarrow> FleetLaunchTemplateOverrides \<Rightarrow> string \<times> string \<times> string" where
  "cacheEntry capacityType overrides =
     (fleetInstanceType overrides, fleetAvailabilityZone overrides, capacityType)"

text \<open>Joining segments with a separator, the inverse of \<open>strings.Split\<close> on segments
  that do not hold the separator.\<close>

fun strings_Join :: "string list \<Rightarrow> char \<Rightarrow> string" where
  "strings_Join [] sep = []"
| "strings_Join [seg] sep = seg"
| "strings_Join (seg # next # segs) sep = seg @ sep # strings_Join (next # segs) sep"

text \<open>Shape name and priority of every override of every fleet request on record, one
  list per launch-template group.\<close>

definition requestPriorities :: "World \<Rightarrow> (string \<times> nat option) list list" where
  "requestPriorities w =
     concat (map (\<lambda>c. case c of
                     CreateFleetCall input \<Rightarrow>
                       map (\<lambda>cfg. map (\<lambda>ov. (overrideInstanceType ov, Priority ov)) (Overrides cfg))
                           (LaunchTemplateConfigs input)
                   | _ \<Rightarrow> [])
                 (calls w))"

section \<open>Concrete inputs\<close>

text \<open>The scenario of section 8 of the specification: zones A and B, both purchase
  kinds allowed; Shape1 offers A-spot and B-on-demand, Shape2 is an accelerator shape
  that offers A-spot. Shape3 is a larger plain shape that is sold on demand only.\<close>

definition exConstraints :: Constraints where
  "exConstraints =
     \<lparr> Requirements = [(LabelTopologyZone, OpIn {''A'', ''B''}),
                       (LabelCapacityType, OpIn {''spot'', ''on-demand''})],
       Tags = [] \<rparr>"

definition Shape1 :: InstanceType where
  "Shape1 = \<lparr> Name = ''Shape1'', Resources = [(''cpu'', 2), (''pods'', 10)],
     Offerings = [\<lparr> CapacityType = ''spot'', Zone = ''A'' \<rparr>,
                  \<lparr> CapacityType = ''on-demand'', Zone = ''B'' \<rparr>] \<rparr>"

definition Shape2 :: InstanceType where
  "Shape2 = \<lparr> Name = ''Shape2'', Resources = [(''cpu'', 2), (''nvidia.com/gpu'', 1)],
     Offerings = [\<lparr> CapacityType = ''spot'', Zone = ''A'' \<rparr>] \<rparr>"

definition Shape3 :: InstanceType where
  "Shape3 = \<lparr> Name = ''Shape3'', Resources = [(''cpu'', 8), (''pods'', 30)],
     Offerings = [\<lparr> CapacityType = ''on-demand'', Zone = ''A'' \<rparr>] \<rparr>"

definition exPod :: "string \<Rightarrow> nat \<Rightarrow> Pod" where
  "exPod name cpu = \<lparr> podName = name, podRequirements = [], podRequests = [(''cpu'', cpu)] \<rparr>"

definition exNode :: Node where
  "exNode = NewNode exConstraints [(''cpu'', 1)] [Shape1, Shape3]"

text \<open>Shape4 is a plain shape sold as spot in zones A and C, Shape5 a plain shape sold
  on demand in zone C only. There are two subnets in zone A and one in zone B. The
  provider of the examples answers every fleet request with the given answer, knows the
  launched instance from the second description on, and keeps two launch templates, one
  for Shape1 and one for every other shape.\<close>

definition Shape4 :: InstanceType where
  "Shape4 = \<lparr> Name = ''Shape4'', Resources = [(''cpu'', 4), (''pods'', 20)],
     Offerings = [\<lparr> CapacityType = ''spot'', Zone = ''A'' \<rparr>,
                  \<lparr> CapacityType = ''spot'', Zone = ''C'' \<rparr>] \<rparr>"

definition exSubnets :: "Subnet list" where
  "exSubnets =
     [\<lparr> SubnetId = ''subnet-a1'', AvailabilityZone = ''A'', AvailableIpAddressCount = 10 \<rparr>,
      \<lparr> SubnetId = ''subnet-a2'', AvailabilityZone = ''A'', AvailableIpAddressCount = 50 \<rparr>,
      \<lparr> SubnetId = ''subnet-b'', AvailabilityZone = ''B'', AvailableIpAddressCount = 20 \<rparr>]"

definition exInstance :: "string \<Rightarrow> Instance" where
  "exInstance shape =
     \<lparr> InstanceId = ''i-0123'', PrivateDnsName = ''IP-10-0-0-1.ec2.internal'',
       instanceInstanceType = shape, placementAvailabilityZone = ''A'',
       SpotInstanceRequestId = Some ''sir-1'', Architecture = ''x86_64'',
       ImageId = ''ami-1'' \<rparr>"

definition exProvider ::
  "(api_error + CreateFleetOutput) \<Rightarrow> string \<Rightarrow> api_error option \<Rightarrow> InstanceProvider" where
  "exProvider fleetAnswer shape terminateAnswer =
     \<lparr> CreateFleetWithContext = (\<lambda>input. fleetAnswer),
       DescribeInstancesWithContext =
         (\<lambda>earlier ids. if earlier = 0 then Inl (NotFound ''InvalidInstanceID.NotFound'')
                        else Inr [\<lparr> reservationInstances = [exInstance shape] \<rparr>]),
       TerminateInstancesWithContext = (\<lambda>ids. terminateAnswer),
       subnetProviderGet = (\<lambda>constraints. Inr exSubnets),
       launchTemplateProviderGet =
         (\<lambda>constraints instanceTypes labels.
            Inr [(''lt-1'', filter (\<lambda>it. Name it = ''Shape1'') instanceTypes),
                 (''lt-2'', filter (\<lambda>it. Name it \<noteq> ''Shape1'') instanceTypes)]) \<rparr>"

definition asciiToLower :: "string \<Rightarrow> string" where
  "asciiToLower s =
     map (\<lambda>c. let n = (of_char c :: nat) in if 65 \<le> n \<and> n \<le> 90 then char_of (n + 32) else c) s"

definition exPackage :: "nat \<Rightarrow> Package" where
  "exPackage n = \<lparr> MaxInstanceTypes = n,
                   AWSToKubeArchitectures = [(''x86_64'', ''amd64''), (''arm64'', ''arm64'')],
                   ToLower = asciiToLower \<rparr>"

definition exContext :: Context where
  "exContext = \<lparr> ClusterName = ''demo'', AWSNodeNameConvention = IPName \<rparr>"

definition exWorld :: World where
  "exWorld = \<lparr> calls = [], unavailableOfferings = [] \<rparr>"

definition exError :: "string \<Rightarrow> string \<Rightarrow> string \<Rightarrow> string \<Rightarrow> CreateFleetError" where
  "exError code message shape zone =
     \<lparr> ErrorCode = code, ErrorMessage = message,
       LaunchTemplateAndOverrides =
         Some \<lparr> responseOverrides =
                  Some \<lparr> fleetInstanceType = shape, fleetAvailabilityZone = zone \<rparr> \<rparr> \<rparr>"

definition exFleetOutput :: "string list \<Rightarrow> CreateFleetOutput" where
  "exFleetOutput ids =
     \<lparr> Errors = [exError ''InsufficientInstanceCapacity'' ''no capacity'' ''Shape1'' ''A'',
                 exError ''UnfulfillableCapacity'' ''unfulfillable'' ''Shape4'' ''C''],
       Instances = (if ids = [] then [] else [\<lparr> InstanceIds = ids \<rparr>]) \<rparr>"

text \<open>An answer whose second error has the insufficient-capacity code and no
  override.\<close>

definition exFleetOutputBare :: CreateFleetOutput where
  "exFleetOutputBare =
     \<lparr> Errors = [exError ''InsufficientInstanceCapacity'' ''no capacity'' ''Shape1'' ''A'',
                 \<lparr> ErrorCode = ''InsufficientInstanceCapacity'', ErrorMessage = ''no capacity'',
                   LaunchTemplateAndOverrides = None \<rparr>,
                 exError ''InsufficientInstanceCapacity'' ''no capacity'' ''Shape4'' ''A''],
       Instances = [\<lparr> InstanceIds = [''i-0123''] \<rparr>] \<rparr>"

definition exNodeDescriptor :: "string \<Rightarrow> v1Node" where
  "exNodeDescriptor providerID =
     \<lparr> nodeName = ''n1'', Labels = [], ProviderID = providerID, Allocatable = [],
       Capacity = [], NodeInfo = \<lparr> infoArchitecture = ''amd64'', OSImage = ''ami-1'',
                                   OperatingSystem = ''linux'' \<rparr> \<rparr>"

definition Shape5 :: InstanceType where
  "Shape5 = \<lparr> Name = ''Shape5'', Resources = [(''cpu'', 4), (''pods'', 20)],
     Offerings = [\<lparr> CapacityType = ''on-demand'', Zone = ''C'' \<rparr>] \<rparr>"

section \<open>Theorems\<close>

subsection \<open>Admission into a provisional node\<close>

text \<open>
  C1. Whenever \<open>Add\<close> returns an error, whichever it is, the node after the call is the
  node before the call: requirement set, resource total, admitted units and candidate
  shapes are all unchanged.
\<close>

theorem Add_failure_leaves_node:
  "fst (Add n pod) \<noteq> None \<Longrightarrow> snd (Add n pod) = n"
  by (auto simp: Add_def Let_def split: option.splits if_splits)

theorem Add_failure_leaves_node_witness:
  "fst (Add exNode (exPod ''big'' 9)) = Some NoInstanceTypeSatisfiesDemand \<and>
   snd (Add exNode (exPod ''big'' 9)) = exNode"
proof -
  have e: "fst (Add exNode (exPod ''big'' 9)) = Some NoInstanceTypeSatisfiesDemand"
    by code_simp
  then have "fst (Add exNode (exPod ''big'' 9)) \<noteq> None" by simp
  from Add_failure_leaves_node [OF this] e show ?thesis by simp
qed

lemma quantity_update:
  "quantity (AList.update k v al) k' = (if k' = k then v else quantity al k')"
  by (simp add: quantity_def update_conv')

lemma quantity_Nil: "quantity [] k = 0"
  by (simp add: quantity_def)

lemma quantity_fold_Merge_entry:
  "quantity (fold Merge_entry es acc) k =
     quantity acc k + sum_list (map snd (filter (\<lambda>e. fst e = k) es))"
  by (induction es arbitrary: acc) (auto simp: Merge_entry_def quantity_update)

lemma keys_fold_Merge_entry:
  "fst ` set (fold Merge_entry es acc) = fst ` set acc \<union> fst ` set es"
  by (induction es arbitrary: acc) (auto simp: Merge_entry_def dom_update)

lemma quantity_le_sum:
  "quantity a k \<le> sum_list (map snd (filter (\<lambda>e. fst e = k) a))"
  by (induction a) (auto simp: quantity_def)

lemma quantity_Merge_ge: "quantity a k \<le> quantity (Merge a b) k"
  using quantity_le_sum [of a k]
  by (simp add: Merge_def quantity_fold_Merge_entry quantity_Nil)

lemma keys_Merge: "fst ` set (Merge a b) = fst ` set a \<union> fst ` set b"
  by (simp add: Merge_def keys_fold_Merge_entry image_Un)

lemma Fits_Merge: "Fits (Merge a b) allocatable \<Longrightarrow> Fits a allocatable"
proof -
  assume h: "Fits (Merge a b) allocatable"
  have "quantity a k \<le> quantity allocatable k" if "k \<in> fst ` set a" for k
  proof -
    from that have "k \<in> fst ` set (Merge a b)" by (simp add: keys_Merge)
    with h have "quantity (Merge a b) k \<le> quantity allocatable k"
      by (auto simp: Fits_def list_all_iff)
    with quantity_Merge_ge [of a k b] show ?thesis by simp
  qed
  then show ?thesis by (auto simp: Fits_def list_all_iff)
qed

lemma allowed_Intersection: "allowed (Intersection a b) = allowed a \<inter> allowed b"
  by (cases a; cases b) auto

lemma Get_update: "Get (AList.update k v r) k' = (if k' = k then v else Get r k')"
  by (simp add: Get_def update_conv')

lemma allowed_Requirements_Add:
  "allowed (Get (Requirements_Add r other) k) \<subseteq> allowed (Get r k)"
  unfolding Requirements_Add_def
proof (induction other arbitrary: r)
  case Nil
  show ?case by simp
next
  case (Cons e other)
  have "allowed (Get (Requirements_Add_entry e r) k) \<subseteq> allowed (Get r k)"
    by (simp add: Requirements_Add_entry_def Get_update allowed_Intersection)
  with Cons [of "Requirements_Add_entry e r"] show ?case by auto
qed

lemma hasOffering_Requirements_Add:
  "hasOffering (Requirements_Add r other) it \<Longrightarrow> hasOffering r it"
  using allowed_Requirements_Add [of r other LabelTopologyZone]
        allowed_Requirements_Add [of r other LabelCapacityType]
  by (auto simp: hasOffering_def list_ex_iff Zones_def CapacityTypes_def)

lemma keeps_cumulative:
  "keeps (cumulativeRequirements r pods) (cumulativeRequests q pods) it \<Longrightarrow> keeps r q it"
proof (induction pods arbitrary: r q)
  case Nil
  then show ?case by (simp add: cumulativeRequirements_def cumulativeRequests_def)
next
  case (Cons pod pods)
  from Cons.prems
  have "keeps (cumulativeRequirements (Requirements_Add r (NewPodRequirements pod)) pods)
              (cumulativeRequests (Merge q (RequestsForPods pod)) pods) it"
    by (simp add: cumulativeRequirements_def cumulativeRequests_def)
  then have "keeps (Requirements_Add r (NewPodRequirements pod))
                   (Merge q (RequestsForPods pod)) it"
    by (rule Cons.IH)
  then show ?case
    by (auto simp: keeps_def dest: Fits_Merge hasOffering_Requirements_Add)
qed

lemma FilterInstanceTypes_keeps: "FilterInstanceTypes its r q = filter (keeps r q) its"
  unfolding FilterInstanceTypes_def
  by (rule filter_cong) (simp_all add: keeps_def)

lemma Add_success:
  assumes "Add n pod = (None, n')"
  shows "Requirements (Constraints n') =
           Requirements_Add (Requirements (Constraints n)) (NewPodRequirements pod)"
    and "requests n' = Merge (requests n) (RequestsForPods pod)"
    and "InstanceTypeOptions n' =
           FilterInstanceTypes (InstanceTypeOptions n) (Requirements (Constraints n')) (requests n')"
    and "Pods n' = Pods n @ [pod]"
  using assms by (auto simp: Add_def Let_def split: option.splits if_splits)

lemma AddAll_Cons:
  assumes "AddAll n (pod # pods) = Inr n'"
  obtains n1 where "Add n pod = (None, n1)" and "AddAll n1 pods = Inr n'"
  using assms by (auto split: prod.splits option.splits)

lemma AddAll_fields:
  "AddAll n pods = Inr n' \<Longrightarrow>
     Requirements (Constraints n') = cumulativeRequirements (Requirements (Constraints n)) pods \<and>
     requests n' = cumulativeRequests (requests n) pods"
proof (induction pods arbitrary: n)
  case Nil
  then show ?case by (simp add: cumulativeRequirements_def cumulativeRequests_def)
next
  case (Cons pod pods)
  from Cons.prems obtain n1 where a: "Add n pod = (None, n1)" and r: "AddAll n1 pods = Inr n'"
    by (rule AddAll_Cons)
  from Cons.IH [OF r] Add_success(1,2) [OF a] show ?case
    by (simp add: cumulativeRequirements_def cumulativeRequests_def)
qed

lemma AddAll_candidates:
  "AddAll n pods = Inr n' \<Longrightarrow> pods \<noteq> [] \<Longrightarrow>
     InstanceTypeOptions n' =
       FilterInstanceTypes (InstanceTypeOptions n) (Requirements (Constraints n')) (requests n')"
proof (induction pods arbitrary: n)
  case Nil
  then show ?case by simp
next
  case (Cons pod pods)
  from Cons.prems(1) obtain n1 where a: "Add n pod = (None, n1)" and r: "AddAll n1 pods = Inr n'"
    by (rule AddAll_Cons)
  note s = Add_success [OF a]
  show ?case
  proof (cases "pods = []")
    case True
    with r have "n' = n1" by simp
    with s(3) show ?thesis by simp
  next
    case False
    from Cons.IH [OF r False]
    have "InstanceTypeOptions n' =
            filter (keeps (Requirements (Constraints n')) (requests n')) (InstanceTypeOptions n1)"
      by (simp add: FilterInstanceTypes_keeps)
    also have "\<dots> = filter (keeps (Requirements (Constraints n')) (requests n'))
                      (filter (keeps (Requirements (Constraints n1)) (requests n1))
                         (InstanceTypeOptions n))"
      using s(3) by (simp add: FilterInstanceTypes_keeps)
    also have "\<dots> = filter (keeps (Requirements (Constraints n')) (requests n'))
                      (InstanceTypeOptions n)"
    proof -
      have "keeps (Requirements (Constraints n')) (requests n') it \<Longrightarrow>
            keeps (Requirements (Constraints n1)) (requests n1) it" for it
        using AddAll_fields [OF r] keeps_cumulative by simp
      then show ?thesis by (auto intro: filter_cong)
    qed
    finally show ?thesis by (simp add: FilterInstanceTypes_keeps)
  qed
qed

text \<open>
  C2. After a non-empty sequence of units was admitted into a fresh node, every
  admission succeeding, the node's candidate list is the construction-time candidate
  list filtered once by the cumulative requirement set and the cumulative resource
  total. (\<open>NewNode\<close> itself does not filter, so there is nothing to compare before the
  first admission.)
\<close>

theorem candidates_rederived_from_original:
  assumes "AddAll (NewNode constraints daemonResources instanceTypes) pods = Inr n'"
    and "pods \<noteq> []"
  shows "InstanceTypeOptions n' =
           FilterInstanceTypes instanceTypes
             (cumulativeRequirements (Requirements constraints) pods)
             (cumulativeRequests daemonResources pods)"
  using AddAll_candidates [OF assms] AddAll_fields [OF assms(1)]
  by (simp add: NewNode_def)

theorem candidates_rederived_from_original_witness:
  "\<exists>n'. AddAll (NewNode exConstraints [(''cpu'', 1)] [Shape1, Shape3])
            [exPod ''a'' 1, exPod ''b'' 2] = Inr n' \<and>
        [exPod ''a'' 1, exPod ''b'' 2] \<noteq> [] \<and>
        InstanceTypeOptions n' =
          FilterInstanceTypes [Shape1, Shape3]
            (cumulativeRequirements (Requirements exConstraints) [exPod ''a'' 1, exPod ''b'' 2])
            (cumulativeRequests [(''cpu'', 1)] [exPod ''a'' 1, exPod ''b'' 2]) \<and>
        map Name (InstanceTypeOptions n') = [''Shape3'']"
proof -
  let ?r = "AddAll (NewNode exConstraints [(''cpu'', 1)] [Shape1, Shape3])
              [exPod ''a'' 1, exPod ''b'' 2]"
  have v: "case ?r of Inl err \<Rightarrow> False
             | Inr n' \<Rightarrow> map Name (InstanceTypeOptions n') = [''Shape3'']"
    by code_simp
  then obtain n' where e: "?r = Inr n'" and m: "map Name (InstanceTypeOptions n') = [''Shape3'']"
    by (cases ?r) auto
  have ne: "[exPod ''a'' 1, exPod ''b'' 2] \<noteq> []" by simp
  from candidates_rederived_from_original [OF e ne] e m show ?thesis by simp
qed

subsection \<open>Purchase kind and the accelerator filter\<close>

lemma genericInstanceTypes_loop_filter:
  "genericInstanceTypes_loop its acc = acc @ filter isGeneric its"
  by (induction its arbitrary: acc) auto

lemma spotOffering_loop_iff:
  "spotOffering_loop zones os \<longleftrightarrow>
     (\<exists>offering \<in> set os. CapacityType offering = CapacityTypeSpot \<and> Zone offering \<in> zones)"
  by (induction os) auto

lemma spotInstanceType_loop_iff:
  "spotInstanceType_loop zones its \<longleftrightarrow>
     (\<exists>it \<in> set its. \<exists>offering \<in> set (Offerings it).
         CapacityType offering = CapacityTypeSpot \<and> Zone offering \<in> zones)"
  by (induction its) (auto simp: spotOffering_loop_iff)

lemma spot_neq_onDemand: "CapacityTypeSpot \<noteq> CapacityTypeOnDemand"
  by (simp add: CapacityTypeSpot_def CapacityTypeOnDemand_def)

text \<open>
  C3. \<open>getCapacityType\<close> answers spot exactly when the requirement set allows spot and
  some candidate shape has a spot offering in an allowed zone, and on-demand in every
  other case. It is a function of the constraints and the candidate list alone: it takes
  no other argument and reads no state.
\<close>

theorem getCapacityType_spot_iff:
  "(getCapacityType constraints instanceTypes = CapacityTypeSpot \<longleftrightarrow>
      CapacityTypeSpot \<in> CapacityTypes (Requirements constraints) \<and>
      (\<exists>it \<in> set instanceTypes. \<exists>offering \<in> set (Offerings it).
          CapacityType offering = CapacityTypeSpot \<and>
          Zone offering \<in> Zones (Requirements constraints))) \<and>
   (getCapacityType constraints instanceTypes \<noteq> CapacityTypeSpot \<longrightarrow>
      getCapacityType constraints instanceTypes = CapacityTypeOnDemand)"
  using spot_neq_onDemand by (auto simp: getCapacityType_def spotInstanceType_loop_iff)

theorem getCapacityType_spot_iff_witness:
  "getCapacityType exConstraints [Shape2, Shape1] = CapacityTypeSpot \<and>
   getCapacityType exConstraints [Shape3] = CapacityTypeOnDemand"
proof -
  have a: "CapacityTypeSpot \<in> CapacityTypes (Requirements exConstraints) \<and>
           (\<exists>it \<in> set [Shape2, Shape1]. \<exists>offering \<in> set (Offerings it).
               CapacityType offering = CapacityTypeSpot \<and>
               Zone offering \<in> Zones (Requirements exConstraints))"
    by code_simp
  have b: "getCapacityType exConstraints [Shape3] \<noteq> CapacityTypeSpot"
    by code_simp
  from a b getCapacityType_spot_iff [of exConstraints "[Shape2, Shape1]"]
       getCapacityType_spot_iff [of exConstraints "[Shape3]"]
  show ?thesis by blast
qed

text \<open>
  C8. When at least one candidate shape has no accelerator resource (no NVIDIA GPU, no
  AMD GPU and no Neuron quantity), \<open>filterInstanceTypes\<close> returns exactly the plain
  shapes, in their original order; when every candidate is accelerator-equipped, it
  returns its input.
\<close>

theorem filterInstanceTypes_prefers_generic:
  "((\<exists>it \<in> set instanceTypes. isGeneric it) \<longrightarrow>
      filterInstanceTypes instanceTypes = filter isGeneric instanceTypes) \<and>
   ((\<forall>it \<in> set instanceTypes. \<not> isGeneric it) \<longrightarrow>
      filterInstanceTypes instanceTypes = instanceTypes)"
  by (auto simp: filterInstanceTypes_def genericInstanceTypes_loop_filter filter_empty_conv)

theorem filterInstanceTypes_prefers_generic_witness:
  "filterInstanceTypes [Shape2, Shape1, Shape3] = [Shape1, Shape3] \<and>
   filterInstanceTypes [Shape2, Shape2] = [Shape2, Shape2]"
proof -
  have g: "isGeneric Shape1" "isGeneric Shape3" "\<not> isGeneric Shape2"
    by code_simp+
  from g filterInstanceTypes_prefers_generic [of "[Shape2, Shape1, Shape3]"]
       filterInstanceTypes_prefers_generic [of "[Shape2, Shape2]"]
  show ?thesis by simp
qed

subsection \<open>Launch-template overrides\<close>

lemma overrides_offerings_priority:
  "ov \<in> set (overrides_offerings zs zones capacityType i instanceType os) \<Longrightarrow>
     overrideInstanceType ov = Name instanceType \<and>
     Priority ov = (if capacityType = CapacityTypeSpot then Some i else None)"
  by (induction os) (auto split: if_splits option.splits)

lemma overrides_instanceTypes_priority:
  "ov \<in> set (overrides_instanceTypes zs zones capacityType k its) \<Longrightarrow>
     \<exists>j < length its. overrideInstanceType ov = Name (its ! j) \<and>
        Priority ov = (if capacityType = CapacityTypeSpot then Some (k + j) else None)"
proof (induction its arbitrary: k)
  case Nil
  then show ?case by simp
next
  case (Cons it its)
  from Cons.prems consider
      (here) "ov \<in> set (overrides_offerings zs zones capacityType k it (Offerings it))"
    | (later) "ov \<in> set (overrides_instanceTypes zs zones capacityType (Suc k) its)"
    by auto
  then show ?case
  proof cases
    case here
    from overrides_offerings_priority [OF here]
    have "overrideInstanceType ov = Name ((it # its) ! 0) \<and>
          Priority ov = (if capacityType = CapacityTypeSpot then Some (k + 0) else None)"
      by simp
    then show ?thesis by blast
  next
    case later
    from Cons.IH [OF later] obtain j where j: "j < length its"
      "overrideInstanceType ov = Name (its ! j)"
      "Priority ov = (if capacityType = CapacityTypeSpot then Some (Suc k + j) else None)"
      by blast
    then have "Suc j < length (it # its) \<and> overrideInstanceType ov = Name ((it # its) ! Suc j) \<and>
          Priority ov = (if capacityType = CapacityTypeSpot then Some (k + Suc j) else None)"
      by simp
    then show ?thesis by blast
  qed
qed

lemma getOverrides_priority:
  assumes "ov \<in> set (getOverrides shapes subnets zones capacityType)"
  shows "\<exists>i < length shapes. overrideInstanceType ov = Name (shapes ! i) \<and>
           Priority ov = (if capacityType = CapacityTypeSpot then Some i else None)"
proof -
  from assms
  have "ov \<in> set (overrides_instanceTypes (zonalSubnets subnets) zones capacityType 0 shapes)"
    by (simp add: getOverrides_def)
  from overrides_instanceTypes_priority [OF this] obtain j where
    "j < length shapes" "overrideInstanceType ov = Name (shapes ! j)"
    "Priority ov = (if capacityType = CapacityTypeSpot then Some (0 + j) else None)"
    by blast
  then have "j < length shapes \<and> overrideInstanceType ov = Name (shapes ! j) \<and>
             Priority ov = (if capacityType = CapacityTypeSpot then Some j else None)"
    by simp
  then show ?thesis by blast
qed

lemma launchTemplateConfigs_loop_group:
  "cfg \<in> set (launchTemplateConfigs_loop subnets zones capacityType launchTemplates) \<Longrightarrow>
     \<exists>shapes. (LaunchTemplateName cfg, shapes) \<in> set launchTemplates \<and>
        Overrides cfg = getOverrides shapes subnets zones capacityType"
proof (induction launchTemplates)
  case Nil
  then show ?case by simp
next
  case (Cons lt lts)
  obtain name shapes where lt: "lt = (name, shapes)" by (cases lt)
  show ?case
  proof (cases "cfg \<in> set (launchTemplateConfigs_loop subnets zones capacityType lts)")
    case True
    from Cons.IH [OF True] show ?thesis by auto
  next
    case False
    with Cons.prems lt
    have "cfg = \<lparr> Overrides = getOverrides shapes subnets zones capacityType,
                   LaunchTemplateName = name, Version = ''$Latest'' \<rparr>"
      by (auto simp: Let_def split: if_splits)
    then have "(LaunchTemplateName cfg, shapes) \<in> set (lt # lts) \<and>
               Overrides cfg = getOverrides shapes subnets zones capacityType"
      using lt by simp
    then show ?thesis by blast
  qed
qed

lemma launchTemplateConfigs_loop_empty:
  "(\<forall>lt \<in> set launchTemplates. getOverrides (snd lt) subnets zones capacityType = []) \<Longrightarrow>
   launchTemplateConfigs_loop subnets zones capacityType launchTemplates = []"
  by (induction launchTemplates) (auto simp: Let_def)

subsection \<open>Effects of the launch step and of Create\<close>

lemma updateUnavailableOfferingsCache_eq:
  "updateUnavailableOfferingsCache errors capacityType w =
     (if list_all readable errors then None else Some nilPointerDereference,
      w\<lparr> unavailableOfferings := unavailableOfferings w @
           map (cacheEntry capacityType)
             (List.map_filter errorOverrides
                (filter insufficientCapacity (takeWhile readable errors))) \<rparr>)"
proof (induction errors arbitrary: w)
  case Nil
  show ?case by (simp add: List.map_filter_simps)
next
  case (Cons err errors)
  show ?case
  proof (cases "insufficientCapacity err")
    case False
    then have "InsufficientCapacityErrorCode \<noteq> ErrorCode err" "readable err"
      by (auto simp: insufficientCapacity_def readable_def)
    with False Cons.IH [of w] show ?thesis by simp
  next
    case True
    then have c: "InsufficientCapacityErrorCode = ErrorCode err"
      by (simp add: insufficientCapacity_def)
    show ?thesis
    proof (cases "errorOverrides err")
      case None
      with True have "\<not> readable err" by (simp add: readable_def)
      with None c show ?thesis
        by (auto simp: errorOverrides_def List.map_filter_simps split: option.splits)
    next
      case (Some overrides)
      with True have "readable err" by (simp add: readable_def)
      with Some True c
           Cons.IH [of "CacheUnavailable (fleetInstanceType overrides)
                          (fleetAvailabilityZone overrides) capacityType w"]
      show ?thesis
        by (auto simp: errorOverrides_def List.map_filter_simps CacheUnavailable_def cacheEntry_def
                 split: option.splits)
    qed
  qed
qed

lemma readable_overrides:
  assumes "map errorOverrides (filter insufficientCapacity errors) = map Some ovs"
  shows "list_all readable errors"
    and "List.map_filter errorOverrides (filter insufficientCapacity errors) = ovs"
proof -
  have "errorOverrides err \<noteq> None" if "err \<in> set errors" "insufficientCapacity err" for err
  proof -
    from that have "errorOverrides err \<in> set (map errorOverrides (filter insufficientCapacity errors))"
      by simp
    with assms show ?thesis by auto
  qed
  then show "list_all readable errors"
    by (auto simp: list_all_iff readable_def)
  have "List.map_filter f xs = ys" if "map f xs = map Some ys" for f :: "'a \<Rightarrow> 'b option" and xs ys
    using that by (induction xs arbitrary: ys) (auto simp: List.map_filter_simps)
  with assms show "List.map_filter errorOverrides (filter insufficientCapacity errors) = ovs"
    by blast
qed

lemma updateUnavailableOfferingsCache_readable:
  assumes "map errorOverrides (filter insufficientCapacity errors) = map Some ovs"
  shows "updateUnavailableOfferingsCache errors capacityType w =
           (None, w\<lparr> unavailableOfferings :=
                        unavailableOfferings w @ map (cacheEntry capacityType) ovs \<rparr>)"
proof -
  from readable_overrides(1) [OF assms] have t: "takeWhile readable errors = errors"
    by (simp add: list_all_iff)
  show ?thesis
    unfolding updateUnavailableOfferingsCache_eq t
    using readable_overrides [OF assms] by simp
qed

lemma getInstance_effects:
  "unavailableOfferings (snd (getInstance p ctx instanceId w)) = unavailableOfferings w"
  "calls (snd (getInstance p ctx instanceId w)) = calls w @ [DescribeInstancesCall [instanceId]]"
  by (auto simp: getInstance_def Let_def split: sum.splits list.splits)

lemma retry_getInstance_effects:
  "unavailableOfferings (snd (retry_getInstance attempts p ctx instanceId errs w)) =
     unavailableOfferings w \<and>
   (\<exists>ds. calls (snd (retry_getInstance attempts p ctx instanceId errs w)) = calls w @ ds \<and>
         (\<forall>c \<in> set ds. \<exists>ids. c = DescribeInstancesCall ids))"
proof (induction attempts arbitrary: errs w)
  case 0
  show ?case by simp
next
  case (Suc attempts)
  obtain r w' where g: "getInstance p ctx instanceId w = (r, w')"
    by (cases "getInstance p ctx instanceId w")
  with getInstance_effects [of p ctx instanceId w]
  have c: "unavailableOfferings w' = unavailableOfferings w"
          "calls w' = calls w @ [DescribeInstancesCall [instanceId]]"
    by simp_all
  show ?case
  proof (cases r)
    case (Inr found)
    with g c show ?thesis by simp
  next
    case (Inl err)
    from Suc.IH [of "errs @ [err]" w'] obtain ds where
      "unavailableOfferings (snd (retry_getInstance attempts p ctx instanceId (errs @ [err]) w')) =
         unavailableOfferings w'"
      "calls (snd (retry_getInstance attempts p ctx instanceId (errs @ [err]) w')) = calls w' @ ds"
      "\<forall>c \<in> set ds. \<exists>ids. c = DescribeInstancesCall ids"
      by blast
    with g c Inl
    have "unavailableOfferings (snd (retry_getInstance (Suc attempts) p ctx instanceId errs w)) =
            unavailableOfferings w \<and>
          calls (snd (retry_getInstance (Suc attempts) p ctx instanceId errs w)) =
            calls w @ (DescribeInstancesCall [instanceId] # ds) \<and>
          (\<forall>c \<in> set (DescribeInstancesCall [instanceId] # ds). \<exists>ids. c = DescribeInstancesCall ids)"
      by simp
    then show ?thesis by blast
  qed
qed

lemma Create_unfold:
  "Create pkg p ctx constraints instanceTypes0 w =
     (case launchInstance p ctx constraints (offeredInstanceTypes pkg instanceTypes0) w of
        (LaunchPanicked msg, w1) \<Rightarrow> (Panicked msg, w1)
      | (Launched _ (Some err), w1) \<Rightarrow> (Returned None (Some err), w1)
      | (Launched instanceId None, w1) \<Rightarrow>
          (case retry_getInstance 6 p ctx (case instanceId of None \<Rightarrow> [] | Some s \<Rightarrow> s) [] w1 of
             (Inl err, w2) \<Rightarrow> (Returned None (Some err), w2)
           | (Inr found, w2) \<Rightarrow>
               (case instanceToNode pkg ctx found (offeredInstanceTypes pkg instanceTypes0) of
                  Inl msg \<Rightarrow> (Panicked msg, w2)
                | Inr node \<Rightarrow> (Returned (Some node) None, w2))))"
  unfolding Create_def offeredInstanceTypes_def Let_def ..

lemma Create_effects:
  "unavailableOfferings (snd (Create pkg p ctx constraints instanceTypes0 w)) =
     unavailableOfferings
       (snd (launchInstance p ctx constraints (offeredInstanceTypes pkg instanceTypes0) w)) \<and>
   (\<exists>ds. calls (snd (Create pkg p ctx constraints instanceTypes0 w)) =
           calls (snd (launchInstance p ctx constraints
                         (offeredInstanceTypes pkg instanceTypes0) w)) @ ds \<and>
         (\<forall>c \<in> set ds. \<exists>ids. c = DescribeInstancesCall ids))"
proof -
  let ?its = "offeredInstanceTypes pkg instanceTypes0"
  obtain r w1 where l: "launchInstance p ctx constraints ?its w = (r, w1)"
    by (cases "launchInstance p ctx constraints ?its w")
  have trivial: "\<exists>ds. calls w1 = calls w1 @ ds \<and> (\<forall>c \<in> set ds. \<exists>ids. c = DescribeInstancesCall ids)"
    by simp
  show ?thesis
  proof (cases r)
    case (LaunchPanicked msg)
    with l trivial show ?thesis by (simp add: Create_unfold)
  next
    case (Launched instanceId err)
    show ?thesis
    proof (cases err)
      case (Some e)
      with l Launched trivial show ?thesis by (simp add: Create_unfold)
    next
      case None
      let ?i = "case instanceId of None \<Rightarrow> [] | Some s \<Rightarrow> s"
      obtain r2 w2 where g: "retry_getInstance 6 p ctx ?i [] w1 = (r2, w2)"
        by (cases "retry_getInstance 6 p ctx ?i [] w1")
      with retry_getInstance_effects [of 6 p ctx ?i "[]" w1]
      have e: "unavailableOfferings w2 = unavailableOfferings w1 \<and>
               (\<exists>ds. calls w2 = calls w1 @ ds \<and> (\<forall>c \<in> set ds. \<exists>ids. c = DescribeInstancesCall ids))"
        by simp
      have "snd (Create pkg p ctx constraints instanceTypes0 w) = w2"
        using l Launched None g by (simp add: Create_unfold split: sum.splits)
      with e l show ?thesis by simp
    qed
  qed
qed

lemma launchInstance_not_submitted:
  assumes "getLaunchTemplateConfigs p constraints instanceTypes
             (getCapacityType constraints instanceTypes) = Inl err"
  shows "launchInstance p ctx constraints instanceTypes w =
           (Launched None (Some (Wrapped ''getting launch template configs'' err)), w)"
  using assms by (simp add: launchInstance_def)

lemma launchInstance_calls:
  assumes "getLaunchTemplateConfigs p constraints instanceTypes
             (getCapacityType constraints instanceTypes) = Inr cfgs"
  shows "calls (snd (launchInstance p ctx constraints instanceTypes w)) =
           calls w @ [CreateFleetCall (createFleetInput ctx constraints cfgs
                                         (getCapacityType constraints instanceTypes))]"
  using assms
  by (auto simp: launchInstance_def Let_def updateUnavailableOfferingsCache_eq
           split: sum.splits list.splits)

lemma launchInstance_submitted:
  assumes "getLaunchTemplateConfigs p constraints instanceTypes
             (getCapacityType constraints instanceTypes) = Inr cfgs"
    and "CreateFleetWithContext p
           (createFleetInput ctx constraints cfgs (getCapacityType constraints instanceTypes)) = Inr out"
    and "map errorOverrides (filter insufficientCapacity (Errors out)) = map Some ovs"
  shows "unavailableOfferings (snd (launchInstance p ctx constraints instanceTypes w)) =
           unavailableOfferings w @
             map (cacheEntry (getCapacityType constraints instanceTypes)) ovs"
    and "fst (launchInstance p ctx constraints instanceTypes w) =
           (case Instances out of
              [] \<Rightarrow> Launched None (combineFleetErrors (Errors out))
            | first # _ \<Rightarrow>
                (case InstanceIds first of
                   [] \<Rightarrow> Launched None (combineFleetErrors (Errors out))
                 | instanceId # _ \<Rightarrow> Launched (Some instanceId) None))"
  using assms(1,2)
  by (auto simp: launchInstance_def Let_def updateUnavailableOfferingsCache_readable [OF assms(3)]
           split: list.splits)

lemma launchInstance_panics:
  assumes "getLaunchTemplateConfigs p constraints instanceTypes
             (getCapacityType constraints instanceTypes) = Inr cfgs"
    and "CreateFleetWithContext p
           (createFleetInput ctx constraints cfgs (getCapacityType constraints instanceTypes)) = Inr out"
    and "\<not> list_all readable (Errors out)"
  shows "fst (launchInstance p ctx constraints instanceTypes w) = LaunchPanicked nilPointerDereference"
  using assms
  by (simp add: launchInstance_def Let_def updateUnavailableOfferingsCache_eq)

lemma combineFleetErrors_Some: "\<exists>err. combineFleetErrors errors = Some err"
  by (simp add: combineFleetErrors_def Let_def)

lemma launchInstance_never_nil_nil:
  "fst (launchInstance p ctx constraints instanceTypes w) \<noteq> Launched None None"
  using combineFleetErrors_Some
  by (auto simp: launchInstance_def Let_def updateUnavailableOfferingsCache_eq
           split: sum.splits list.splits)

lemma Create_launch_error:
  assumes "fst (launchInstance p ctx constraints (offeredInstanceTypes pkg instanceTypes0) w)
             = Launched instanceId (Some err)"
  shows "Create pkg p ctx constraints instanceTypes0 w =
           (Returned None (Some err),
            snd (launchInstance p ctx constraints (offeredInstanceTypes pkg instanceTypes0) w))"
  using assms
  by (cases "launchInstance p ctx constraints (offeredInstanceTypes pkg instanceTypes0) w")
     (simp add: Create_unfold)

lemma Create_launch_panic:
  assumes "fst (launchInstance p ctx constraints (offeredInstanceTypes pkg instanceTypes0) w)
             = LaunchPanicked msg"
  shows "fst (Create pkg p ctx constraints instanceTypes0 w) = Panicked msg"
  using assms
  by (cases "launchInstance p ctx constraints (offeredInstanceTypes pkg instanceTypes0) w")
     (simp add: Create_unfold)

subsection \<open>Priorities in the request that Create submits\<close>

lemma getLaunchTemplateConfigs_priority:
  assumes "getLaunchTemplateConfigs p constraints instanceTypes capacityType = Inr cfgs"
    and "cfg \<in> set cfgs"
    and "ov \<in> set (Overrides cfg)"
  shows "\<exists>launchTemplates shapes.
           launchTemplateProviderGet p constraints instanceTypes
             [(LabelCapacityType, capacityType)] = Inr launchTemplates \<and>
           (LaunchTemplateName cfg, shapes) \<in> set launchTemplates \<and>
           (if capacityType = CapacityTypeSpot
            then \<exists>i < length shapes. Name (shapes ! i) = overrideInstanceType ov \<and>
                                     Priority ov = Some i
            else Priority ov = None)"
proof -
  from assms(1) obtain subnets launchTemplates where
    s: "subnetProviderGet p constraints = Inr subnets" and
    l: "launchTemplateProviderGet p constraints instanceTypes
          [(LabelCapacityType, capacityType)] = Inr launchTemplates" and
    c: "cfgs = launchTemplateConfigs_loop subnets (Zones (Requirements constraints))
                 capacityType launchTemplates"
    by (auto simp: getLaunchTemplateConfigs_def Let_def split: sum.splits if_splits)
  from assms(2) c launchTemplateConfigs_loop_group obtain shapes where
    g: "(LaunchTemplateName cfg, shapes) \<in> set launchTemplates" and
    o: "Overrides cfg = getOverrides shapes subnets (Zones (Requirements constraints)) capacityType"
    by blast
  from assms(3) o getOverrides_priority obtain i where
    "i < length shapes" "overrideInstanceType ov = Name (shapes ! i)"
    "Priority ov = (if capacityType = CapacityTypeSpot then Some i else None)"
    by metis
  with l g show ?thesis by auto
qed

lemma Create_fleet_call:
  assumes "CreateFleetCall input \<in> set (calls (snd (Create pkg p ctx constraints instanceTypes0 w)))"
    and "CreateFleetCall input \<notin> set (calls w)"
  shows "\<exists>cfgs.
           getLaunchTemplateConfigs p constraints (offeredInstanceTypes pkg instanceTypes0)
             (getCapacityType constraints (offeredInstanceTypes pkg instanceTypes0)) = Inr cfgs \<and>
           input = createFleetInput ctx constraints cfgs
                     (getCapacityType constraints (offeredInstanceTypes pkg instanceTypes0))"
proof -
  let ?its = "offeredInstanceTypes pkg instanceTypes0"
  let ?ct = "getCapacityType constraints ?its"
  from Create_effects [of pkg p ctx constraints instanceTypes0 w] obtain ds where
    d: "calls (snd (Create pkg p ctx constraints instanceTypes0 w)) =
          calls (snd (launchInstance p ctx constraints ?its w)) @ ds"
       "\<forall>c \<in> set ds. \<exists>ids. c = DescribeInstancesCall ids"
    by blast
  from d(2) have "CreateFleetCall input \<notin> set ds" by auto
  with assms(1) d(1)
  have m: "CreateFleetCall input \<in> set (calls (snd (launchInstance p ctx constraints ?its w)))"
    by simp
  show ?thesis
  proof (cases "getLaunchTemplateConfigs p constraints ?its ?ct")
    case (Inl err)
    from launchInstance_not_submitted [OF Inl, of ctx w] m assms(2) show ?thesis by simp
  next
    case (Inr cfgs)
    from launchInstance_calls [OF Inr, of ctx w] m assms(2)
    have "input = createFleetInput ctx constraints cfgs ?ct" by simp
    with Inr show ?thesis by simp
  qed
qed

text \<open>
  C4 (as amended). Take any fleet request that a call of \<open>Create\<close> puts on record, any
  launch-template group of that request and any override of that group. The request asks
  for the purchase kind that \<open>getCapacityType\<close> selected. When that kind is spot, the
  override carries as priority the index of its shape in the shape list that the
  launch-template collaborator returned for the group's template, which is the list
  \<open>getLaunchTemplateConfigs\<close> hands to \<open>getOverrides\<close>; when the kind is not spot, the
  override carries no priority.
\<close>

theorem priority_is_index_in_group:
  assumes "CreateFleetCall input \<in> set (calls (snd (Create pkg p ctx constraints instanceTypes0 w)))"
    and "CreateFleetCall input \<notin> set (calls w)"
    and "cfg \<in> set (LaunchTemplateConfigs input)"
    and "ov \<in> set (Overrides cfg)"
  shows "DefaultTargetCapacityType input =
           getCapacityType constraints (offeredInstanceTypes pkg instanceTypes0) \<and>
         (\<exists>launchTemplates shapes.
            launchTemplateProviderGet p constraints (offeredInstanceTypes pkg instanceTypes0)
              [(LabelCapacityType,
                getCapacityType constraints (offeredInstanceTypes pkg instanceTypes0))]
              = Inr launchTemplates \<and>
            (LaunchTemplateName cfg, shapes) \<in> set launchTemplates \<and>
            (if getCapacityType constraints (offeredInstanceTypes pkg instanceTypes0)
                  = CapacityTypeSpot
             then \<exists>i < length shapes. Name (shapes ! i) = overrideInstanceType ov \<and>
                                      Priority ov = Some i
             else Priority ov = None))"
proof -
  let ?its = "offeredInstanceTypes pkg instanceTypes0"
  let ?ct = "getCapacityType constraints ?its"
  from Create_fleet_call [OF assms(1,2)] obtain cfgs where
    g: "getLaunchTemplateConfigs p constraints ?its ?ct = Inr cfgs" and
    i: "input = createFleetInput ctx constraints cfgs ?ct"
    by blast
  from i have k: "DefaultTargetCapacityType input = ?ct" and c: "LaunchTemplateConfigs input = cfgs"
    by (simp_all add: createFleetInput_def Let_def)
  from assms(3) c have "cfg \<in> set cfgs" by simp
  from getLaunchTemplateConfigs_priority [OF g this assms(4)] k show ?thesis by simp
qed

theorem priority_is_index_in_group_witness:
  "\<exists>launchTemplates shapes.
     launchTemplateProviderGet (exProvider (Inr (exFleetOutput [''i-0123''])) ''Shape4'' None)
       exConstraints (offeredInstanceTypes (exPackage 20) [Shape1, Shape4])
       [(LabelCapacityType, CapacityTypeSpot)] = Inr launchTemplates \<and>
     (''lt-2'', shapes) \<in> set launchTemplates \<and>
     (\<exists>i < length shapes. Name (shapes ! i) = ''Shape4'' \<and> Some (0::nat) = Some i)"
proof -
  let ?p = "exProvider (Inr (exFleetOutput [''i-0123''])) ''Shape4'' None"
  let ?ov = "\<lparr> overrideInstanceType = ''Shape4'', overrideSubnetId = ''subnet-a2'',
               overrideAvailabilityZone = ''A'', Priority = Some 0 \<rparr>"
  let ?cfg1 = "\<lparr> Overrides = [\<lparr> overrideInstanceType = ''Shape1'', overrideSubnetId = ''subnet-a2'',
               overrideAvailabilityZone = ''A'', Priority = Some 0 \<rparr>],
                  LaunchTemplateName = ''lt-1'', Version = ''$Latest'' \<rparr>"
  let ?cfg2 = "\<lparr> Overrides = [?ov], LaunchTemplateName = ''lt-2'', Version = ''$Latest'' \<rparr>"
  let ?input = "createFleetInput exContext exConstraints [?cfg1, ?cfg2] CapacityTypeSpot"
  have a: "CreateFleetCall ?input \<in>
             set (calls (snd (Create (exPackage 20) ?p exContext exConstraints [Shape1, Shape4] exWorld)))"
    by code_simp
  have b: "CreateFleetCall ?input \<notin> set (calls exWorld)"
    by (simp add: exWorld_def)
  have c: "?cfg2 \<in> set (LaunchTemplateConfigs ?input)"
    by (simp add: createFleetInput_def Let_def)
  have d: "?ov \<in> set (Overrides ?cfg2)" by simp
  have k: "getCapacityType exConstraints (offeredInstanceTypes (exPackage 20) [Shape1, Shape4])
             = CapacityTypeSpot"
    by code_simp
  from priority_is_index_in_group [OF a b c d] k show ?thesis by simp
qed

text \<open>The claim as first stated, with the index taken in the candidate list, fails as
  soon as there are two groups: Shape4 is second in the candidate list and first in its
  group, and its override goes out with priority 0.\<close>

theorem priority_is_index_in_candidates_counterexample:
  "map Name (offeredInstanceTypes (exPackage 20) [Shape1, Shape4]) = [''Shape1'', ''Shape4''] \<and>
   requestPriorities
     (snd (Create (exPackage 20) (exProvider (Inr (exFleetOutput [''i-0123''])) ''Shape4'' None)
             exContext exConstraints [Shape1, Shape4] exWorld)) =
     [[(''Shape1'', Some 0)], [(''Shape4'', Some 0)]]"
  by code_simp

subsection \<open>What Create leaves behind\<close>

text \<open>
  C6. When \<open>Create\<close> submits its fleet request and the provider answers it with errors
  of which those with the insufficient-capacity code each carry their override, the cache
  of unavailable offerings gains, in order, one entry (shape, zone, selected purchase
  kind) for every such error, and nothing else. Nothing is assumed about the instances of
  the answer: the entries are written whether an instance was launched or not.
\<close>

theorem insufficient_capacity_is_cached:
  assumes "getLaunchTemplateConfigs p constraints (offeredInstanceTypes pkg instanceTypes0)
             (getCapacityType constraints (offeredInstanceTypes pkg instanceTypes0)) = Inr cfgs"
    and "CreateFleetWithContext p
           (createFleetInput ctx constraints cfgs
              (getCapacityType constraints (offeredInstanceTypes pkg instanceTypes0))) = Inr out"
    and "map errorOverrides
           (filter (\<lambda>err. ErrorCode err = InsufficientCapacityErrorCode) (Errors out)) = map Some ovs"
  shows "unavailableOfferings (snd (Create pkg p ctx constraints instanceTypes0 w)) =
           unavailableOfferings w @
             map (\<lambda>overrides. (fleetInstanceType overrides, fleetAvailabilityZone overrides,
                                getCapacityType constraints (offeredInstanceTypes pkg instanceTypes0)))
                 ovs"
proof -
  have f: "filter (\<lambda>err. ErrorCode err = InsufficientCapacityErrorCode) (Errors out) =
           filter insufficientCapacity (Errors out)"
    by (rule filter_cong) (simp_all add: insufficientCapacity_def)
  have m: "map (cacheEntry c) ovs =
           map (\<lambda>overrides. (fleetInstanceType overrides, fleetAvailabilityZone overrides, c)) ovs"
    for c
    by (simp add: cacheEntry_def)
  from assms(3) f
  have "map errorOverrides (filter insufficientCapacity (Errors out)) = map Some ovs" by simp
  from launchInstance_submitted(1) [OF assms(1,2) this, of w] Create_effects [of pkg p ctx constraints instanceTypes0 w]
  show ?thesis by (simp add: m)
qed

theorem insufficient_capacity_is_cached_witness:
  "unavailableOfferings
     (snd (Create (exPackage 20) (exProvider (Inr (exFleetOutput [''i-0123''])) ''Shape4'' None)
             exContext exConstraints [Shape1, Shape4] exWorld)) = [(''Shape1'', ''A'', ''spot'')] \<and>
   unavailableOfferings
     (snd (Create (exPackage 20) (exProvider (Inr (exFleetOutput [])) ''Shape4'' None)
             exContext exConstraints [Shape1, Shape4] exWorld)) = [(''Shape1'', ''A'', ''spot'')]"
proof -
  let ?its = "offeredInstanceTypes (exPackage 20) [Shape1, Shape4]"
  let ?ct = "getCapacityType exConstraints ?its"
  let ?cfgs = "[\<lparr> Overrides = [\<lparr> overrideInstanceType = ''Shape1'', overrideSubnetId = ''subnet-a2'',
                                  overrideAvailabilityZone = ''A'', Priority = Some 0 \<rparr>],
                   LaunchTemplateName = ''lt-1'', Version = ''$Latest'' \<rparr>,
                \<lparr> Overrides = [\<lparr> overrideInstanceType = ''Shape4'', overrideSubnetId = ''subnet-a2'',
                                  overrideAvailabilityZone = ''A'', Priority = Some 0 \<rparr>],
                   LaunchTemplateName = ''lt-2'', Version = ''$Latest'' \<rparr>]"
  let ?ovs = "[\<lparr> fleetInstanceType = ''Shape1'', fleetAvailabilityZone = ''A'' \<rparr>]"
  have a: "getLaunchTemplateConfigs (exProvider answer ''Shape4'' None) exConstraints ?its ?ct
             = Inr ?cfgs" for answer
    by code_simp
  have b: "CreateFleetWithContext (exProvider (Inr out) ''Shape4'' None)
             (createFleetInput exContext exConstraints ?cfgs ?ct) = Inr out" for out
    by (simp add: exProvider_def)
  have c: "map errorOverrides
             (filter (\<lambda>err. ErrorCode err = InsufficientCapacityErrorCode)
                (Errors (exFleetOutput ids))) = map Some ?ovs" for ids
    by code_simp
  have k: "?ct = ''spot''" by code_simp
  have e: "unavailableOfferings exWorld = []" by (simp add: exWorld_def)
  from insufficient_capacity_is_cached
         [OF a [of "Inr (exFleetOutput [''i-0123''])"] b [of "exFleetOutput [''i-0123'']"] c,
          where w = exWorld]
       insufficient_capacity_is_cached
         [OF a [of "Inr (exFleetOutput [])"] b [of "exFleetOutput []"] c, where w = exWorld]
       k e
  show ?thesis by simp
qed

text \<open>An error with the insufficient-capacity code and no override stops \<open>Create\<close>
  with a panic: what was written to the cache before stays, the errors after it are not
  looked at.\<close>

lemma Create_panics_on_bare_error:
  "Create (exPackage 20) (exProvider (Inr exFleetOutputBare) ''Shape4'' None)
      exContext exConstraints [Shape1, Shape4] exWorld =
     (Panicked nilPointerDereference,
      \<lparr> calls = [CreateFleetCall
                   (createFleetInput exContext exConstraints
                      [\<lparr> Overrides = [\<lparr> overrideInstanceType = ''Shape1'',
                                         overrideSubnetId = ''subnet-a2'',
                                         overrideAvailabilityZone = ''A'', Priority = Some 0 \<rparr>],
                          LaunchTemplateName = ''lt-1'', Version = ''$Latest'' \<rparr>,
                       \<lparr> Overrides = [\<lparr> overrideInstanceType = ''Shape4'',
                                         overrideSubnetId = ''subnet-a2'',
                                         overrideAvailabilityZone = ''A'', Priority = Some 0 \<rparr>],
                          LaunchTemplateName = ''lt-2'', Version = ''$Latest'' \<rparr>]
                      CapacityTypeSpot)],
        unavailableOfferings = [(''Shape1'', ''A'', ''spot'')] \<rparr>)"
  by code_simp

text \<open>
  C7. When no launch-template group yields an override, \<open>Create\<close> returns the error
  for no available offerings and leaves the record of calls as it was: no fleet request
  and no other call of the provider's API was made.
\<close>

theorem no_overrides_no_request:
  assumes "subnetProviderGet p constraints = Inr subnets"
    and "launchTemplateProviderGet p constraints (offeredInstanceTypes pkg instanceTypes0)
           [(LabelCapacityType, getCapacityType constraints (offeredInstanceTypes pkg instanceTypes0))]
         = Inr launchTemplates"
    and "\<forall>lt \<in> set launchTemplates.
           getOverrides (snd lt) subnets (Zones (Requirements constraints))
             (getCapacityType constraints (offeredInstanceTypes pkg instanceTypes0)) = []"
  shows "Create pkg p ctx constraints instanceTypes0 w =
           (Returned None (Some (Wrapped ''getting launch template configs'' NoOfferingsAvailable)), w)"
proof -
  let ?its = "offeredInstanceTypes pkg instanceTypes0"
  from assms have "getLaunchTemplateConfigs p constraints ?its (getCapacityType constraints ?its)
                     = Inl NoOfferingsAvailable"
    by (simp add: getLaunchTemplateConfigs_def launchTemplateConfigs_loop_empty)
  then have l: "launchInstance p ctx constraints ?its w =
              (Launched None (Some (Wrapped ''getting launch template configs'' NoOfferingsAvailable)),
               w)"
    by (rule launchInstance_not_submitted)
  then have "fst (launchInstance p ctx constraints ?its w) =
              Launched None (Some (Wrapped ''getting launch template configs'' NoOfferingsAvailable))"
    by simp
  from Create_launch_error [OF this] l show ?thesis by simp
qed

theorem no_overrides_no_request_witness:
  "Create (exPackage 20) (exProvider (Inr (exFleetOutput [''i-0123''])) ''Shape5'' None)
      exContext exConstraints [Shape5] exWorld =
     (Returned None (Some (Wrapped ''getting launch template configs'' NoOfferingsAvailable)),
      exWorld)"
proof -
  let ?p = "exProvider (Inr (exFleetOutput [''i-0123''])) ''Shape5'' None"
  let ?its = "offeredInstanceTypes (exPackage 20) [Shape5]"
  have a: "subnetProviderGet ?p exConstraints = Inr exSubnets"
    by (simp add: exProvider_def)
  have b: "launchTemplateProviderGet ?p exConstraints ?its
             [(LabelCapacityType, getCapacityType exConstraints ?its)]
           = Inr [(''lt-1'', []), (''lt-2'', [Shape5])]"
    by code_simp
  have c: "\<forall>lt \<in> set [(''lt-1'', []), (''lt-2'', [Shape5])].
             getOverrides (snd lt) exSubnets (Zones (Requirements exConstraints))
               (getCapacityType exConstraints ?its) = []"
    by code_simp
  from no_overrides_no_request [OF a b c] show ?thesis .
qed

text \<open>
  C10. \<open>combineFleetErrors\<close> never returns \<open>nil\<close>, not even for the empty list of
  errors, and \<open>launchInstance\<close> never returns a \<open>nil\<close> instance id together with a \<open>nil\<close>
  error. When the answer to the fleet request holds no instance id, \<open>Create\<close> does not
  return with a \<open>nil\<close> error; and when, moreover, the cache could be updated from the
  answer (which is so for the empty list of errors), \<open>Create\<close> returns the aggregated
  error.
\<close>

theorem no_instance_id_is_an_error:
  "combineFleetErrors errors \<noteq> None \<and>
   combineFleetErrors [] = Some (FleetRequestFailed None) \<and>
   fst (launchInstance p ctx constraints instanceTypes w) \<noteq> Launched None None \<and>
   (getLaunchTemplateConfigs p constraints (offeredInstanceTypes pkg instanceTypes0)
      (getCapacityType constraints (offeredInstanceTypes pkg instanceTypes0)) = Inr cfgs \<and>
    CreateFleetWithContext p
      (createFleetInput ctx constraints cfgs
         (getCapacityType constraints (offeredInstanceTypes pkg instanceTypes0))) = Inr out \<and>
    (\<forall>i \<in> set (Instances out). InstanceIds i = []) \<longrightarrow>
    (\<forall>node. fst (Create pkg p ctx constraints instanceTypes0 w) \<noteq> Returned node None) \<and>
    (list_all readable (Errors out) \<longrightarrow>
       (\<exists>err. fst (Create pkg p ctx constraints instanceTypes0 w) = Returned None (Some err) \<and>
              combineFleetErrors (Errors out) = Some err)))"
proof (intro conjI impI)
  show "combineFleetErrors errors \<noteq> None"
    using combineFleetErrors_Some [of errors] by auto
  show "combineFleetErrors [] = Some (FleetRequestFailed None)"
    by (simp add: combineFleetErrors_def)
  show "fst (launchInstance p ctx constraints instanceTypes w) \<noteq> Launched None None"
    by (rule launchInstance_never_nil_nil)
next
  let ?its = "offeredInstanceTypes pkg instanceTypes0"
  let ?ct = "getCapacityType constraints ?its"
  assume h: "getLaunchTemplateConfigs p constraints ?its ?ct = Inr cfgs \<and>
    CreateFleetWithContext p (createFleetInput ctx constraints cfgs ?ct) = Inr out \<and>
    (\<forall>i \<in> set (Instances out). InstanceIds i = [])"
  obtain err where e: "combineFleetErrors (Errors out) = Some err"
    using combineFleetErrors_Some by blast
  have r: "fst (launchInstance p ctx constraints ?its w) = Launched None (Some err)"
    if "list_all readable (Errors out)"
    using h e that
    by (auto simp: launchInstance_def Let_def updateUnavailableOfferingsCache_eq split: list.splits)
  have n: "fst (launchInstance p ctx constraints ?its w) = LaunchPanicked nilPointerDereference"
    if "\<not> list_all readable (Errors out)"
    using h that launchInstance_panics [of p constraints ?its cfgs ctx out w] by simp
  show "\<forall>node. fst (Create pkg p ctx constraints instanceTypes0 w) \<noteq> Returned node None"
  proof (cases "list_all readable (Errors out)")
    case True
    from Create_launch_error [OF r [OF True]] show ?thesis by simp
  next
    case False
    from Create_launch_panic [OF n [OF False]] show ?thesis by simp
  qed
  assume "list_all readable (Errors out)"
  from Create_launch_error [OF r [OF this]] e
  show "\<exists>err. fst (Create pkg p ctx constraints instanceTypes0 w) = Returned None (Some err) \<and>
           combineFleetErrors (Errors out) = Some err" by simp
qed

theorem no_instance_id_is_an_error_witness:
  "fst (Create (exPackage 20)
          (exProvider (Inr \<lparr> Errors = [], Instances = [] \<rparr>) ''Shape4'' None)
          exContext exConstraints [Shape1, Shape4] exWorld) =
     Returned None (Some (FleetRequestFailed None))"
proof -
  let ?out = "\<lparr> Errors = [], Instances = [] \<rparr>"
  let ?p = "exProvider (Inr ?out) ''Shape4'' None"
  let ?its = "offeredInstanceTypes (exPackage 20) [Shape1, Shape4]"
  let ?ct = "getCapacityType exConstraints ?its"
  let ?cfgs = "[\<lparr> Overrides = [\<lparr> overrideInstanceType = ''Shape1'', overrideSubnetId = ''subnet-a2'',
                                  overrideAvailabilityZone = ''A'', Priority = Some 0 \<rparr>],
                   LaunchTemplateName = ''lt-1'', Version = ''$Latest'' \<rparr>,
                \<lparr> Overrides = [\<lparr> overrideInstanceType = ''Shape4'', overrideSubnetId = ''subnet-a2'',
                                  overrideAvailabilityZone = ''A'', Priority = Some 0 \<rparr>],
                   LaunchTemplateName = ''lt-2'', Version = ''$Latest'' \<rparr>]"
  have a: "getLaunchTemplateConfigs ?p exConstraints ?its ?ct = Inr ?cfgs"
    by code_simp
  have b: "CreateFleetWithContext ?p (createFleetInput exContext exConstraints ?cfgs ?ct) = Inr ?out"
    by (simp add: exProvider_def)
  have c: "\<forall>i \<in> set (Instances ?out). InstanceIds i = []"
    by simp
  have r: "list_all readable (Errors ?out)"
    by simp
  have d: "combineFleetErrors (Errors ?out) = Some (FleetRequestFailed None)"
    by code_simp
  from no_instance_id_is_an_error [where p = ?p and ctx = exContext
          and constraints = exConstraints and w = exWorld and pkg = "exPackage 20"
          and ?instanceTypes0.0 = "[Shape1, Shape4]" and cfgs = ?cfgs and out = ?out]
  have "getLaunchTemplateConfigs ?p exConstraints ?its ?ct = Inr ?cfgs \<and>
        CreateFleetWithContext ?p (createFleetInput exContext exConstraints ?cfgs ?ct) = Inr ?out \<and>
        (\<forall>i \<in> set (Instances ?out). InstanceIds i = []) \<longrightarrow>
        (list_all readable (Errors ?out) \<longrightarrow>
          (\<exists>err. fst (Create (exPackage 20) ?p exContext exConstraints [Shape1, Shape4] exWorld)
                   = Returned None (Some err) \<and>
                 combineFleetErrors (Errors ?out) = Some err))"
    by blast
  with a b c r obtain err where
    "fst (Create (exPackage 20) ?p exContext exConstraints [Shape1, Shape4] exWorld)
       = Returned None (Some err)"
    "combineFleetErrors (Errors ?out) = Some err"
    by blast
  with d show ?thesis by simp
qed

subsection \<open>Materialization\<close>

lemma instanceToNode_unmatched:
  "\<forall>it \<in> set its. Name it \<noteq> instanceInstanceType inst \<Longrightarrow>
     instanceToNode pkg ctx inst its =
       Inl (''unrecognized instance type '' @ instanceInstanceType inst)"
  by (induction its) auto

lemma instanceToNode_matched:
  "find (\<lambda>it. Name it = instanceInstanceType inst) its = Some it \<Longrightarrow>
     \<exists>node. instanceToNode pkg ctx inst its = Inr node \<and>
        Allocatable node = nodeResources it \<and> Capacity node = nodeResources it"
  by (induction its) (auto simp: Let_def)

lemma Create_materialize:
  assumes "fst (launchInstance p ctx constraints (offeredInstanceTypes pkg instanceTypes0) w)
             = Launched instanceId None"
    and "fst (retry_getInstance 6 p ctx (case instanceId of None \<Rightarrow> [] | Some s \<Rightarrow> s) []
                (snd (launchInstance p ctx constraints (offeredInstanceTypes pkg instanceTypes0) w)))
             = Inr inst"
  shows "fst (Create pkg p ctx constraints instanceTypes0 w) =
           (case instanceToNode pkg ctx inst (offeredInstanceTypes pkg instanceTypes0) of
              Inl msg \<Rightarrow> Panicked msg
            | Inr node \<Rightarrow> Returned (Some node) None)"
proof -
  let ?its = "offeredInstanceTypes pkg instanceTypes0"
  obtain w1 where l: "launchInstance p ctx constraints ?its w = (Launched instanceId None, w1)"
    using assms(1) by (cases "launchInstance p ctx constraints ?its w") auto
  obtain w2 where r: "retry_getInstance 6 p ctx (case instanceId of None \<Rightarrow> [] | Some s \<Rightarrow> s) [] w1
                        = (Inr inst, w2)"
    using assms(2) l
    by (cases "retry_getInstance 6 p ctx (case instanceId of None \<Rightarrow> [] | Some s \<Rightarrow> s) [] w1") auto
  show ?thesis
    by (simp add: Create_unfold l r split: sum.splits)
qed

text \<open>
  C5 (as amended). After a successful launch and a successful description, \<open>Create\<close>
  looks the described shape name up in the list it offered to the provider, which is the
  candidate list after the accelerator filter and after the cut to \<open>MaxInstanceTypes\<close>.
  The first shape of that name gives the resource table of the node descriptor; when no
  shape of that list has the name, \<open>Create\<close> panics and does not return.
\<close>

theorem materialization_matches_offered_list:
  assumes "fst (launchInstance p ctx constraints (offeredInstanceTypes pkg instanceTypes0) w)
             = Launched instanceId None"
    and "fst (retry_getInstance 6 p ctx (case instanceId of None \<Rightarrow> [] | Some s \<Rightarrow> s) []
                (snd (launchInstance p ctx constraints (offeredInstanceTypes pkg instanceTypes0) w)))
             = Inr inst"
  shows "((\<forall>it \<in> set (offeredInstanceTypes pkg instanceTypes0).
             Name it \<noteq> instanceInstanceType inst) \<longrightarrow>
          fst (Create pkg p ctx constraints instanceTypes0 w) =
            Panicked (''unrecognized instance type '' @ instanceInstanceType inst)) \<and>
         (\<forall>it. find (\<lambda>it. Name it = instanceInstanceType inst)
                  (offeredInstanceTypes pkg instanceTypes0) = Some it \<longrightarrow>
            (\<exists>node. fst (Create pkg p ctx constraints instanceTypes0 w) = Returned (Some node) None \<and>
                    Allocatable node = nodeResources it \<and> Capacity node = nodeResources it))"
proof (intro conjI impI allI)
  assume "\<forall>it \<in> set (offeredInstanceTypes pkg instanceTypes0).
            Name it \<noteq> instanceInstanceType inst"
  from instanceToNode_unmatched [OF this, of pkg ctx] Create_materialize [OF assms]
  show "fst (Create pkg p ctx constraints instanceTypes0 w) =
          Panicked (''unrecognized instance type '' @ instanceInstanceType inst)"
    by simp
next
  fix it
  assume "find (\<lambda>it. Name it = instanceInstanceType inst)
            (offeredInstanceTypes pkg instanceTypes0) = Some it"
  from instanceToNode_matched [OF this, of pkg ctx] obtain node where
    "instanceToNode pkg ctx inst (offeredInstanceTypes pkg instanceTypes0) = Inr node"
    "Allocatable node = nodeResources it" "Capacity node = nodeResources it"
    by blast
  with Create_materialize [OF assms]
  show "\<exists>node. fst (Create pkg p ctx constraints instanceTypes0 w) = Returned (Some node) None \<and>
                Allocatable node = nodeResources it \<and> Capacity node = nodeResources it"
    by simp
qed

theorem materialization_matches_offered_list_witness:
  "\<exists>node. fst (Create (exPackage 20) (exProvider (Inr (exFleetOutput [''i-0123''])) ''Shape4'' None)
                 exContext exConstraints [Shape2, Shape1, Shape4] exWorld) = Returned (Some node) None \<and>
          Allocatable node = [(''pods'', 20), (''cpu'', 4)] \<and>
          Capacity node = [(''pods'', 20), (''cpu'', 4)]"
proof -
  let ?p = "exProvider (Inr (exFleetOutput [''i-0123''])) ''Shape4'' None"
  let ?its = "offeredInstanceTypes (exPackage 20) [Shape2, Shape1, Shape4]"
  have a: "fst (launchInstance ?p exContext exConstraints ?its exWorld) = Launched (Some ''i-0123'') None"
    by code_simp
  have b: "fst (retry_getInstance 6 ?p exContext (case Some ''i-0123'' of None \<Rightarrow> [] | Some s \<Rightarrow> s) []
                  (snd (launchInstance ?p exContext exConstraints ?its exWorld)))
             = Inr (exInstance ''Shape4'')"
    by code_simp
  have f: "find (\<lambda>it. Name it = instanceInstanceType (exInstance ''Shape4'')) ?its = Some Shape4"
    by code_simp
  have n: "nodeResources Shape4 = [(''pods'', 20), (''cpu'', 4)]"
    by code_simp
  from materialization_matches_offered_list [OF a b] f n show ?thesis by simp
qed

text \<open>The claim as first stated, with the look-up in the list before the cut, fails
  where the cut drops a shape: with a cap of one shape, Shape4 is in the candidate list
  and a description naming it makes \<open>Create\<close> panic.\<close>

theorem materialization_pre_truncation_counterexample:
  "Shape4 \<in> set [Shape1, Shape4] \<and>
   Name Shape4 = instanceInstanceType (exInstance ''Shape4'') \<and>
   offeredInstanceTypes (exPackage 1) [Shape1, Shape4] = [Shape1] \<and>
   fst (Create (exPackage 1) (exProvider (Inr (exFleetOutput [''i-0123''])) ''Shape4'' None)
          exContext exConstraints [Shape1, Shape4] exWorld) =
     Panicked ''unrecognized instance type Shape4''"
  by code_simp

subsection \<open>Termination\<close>

lemma length_strings_Split:
  "length (strings_Split s sep) = Suc (count_list s sep)"
  by (induction s) (auto split: list.splits)

lemma strings_Split_segment:
  "sep \<notin> set seg \<Longrightarrow> strings_Split seg sep = [seg]"
  by (induction seg) auto

lemma strings_Split_append:
  "sep \<notin> set seg \<Longrightarrow> strings_Split (seg @ sep # rest) sep = seg # strings_Split rest sep"
  by (induction seg) auto

lemma strings_Split_Join:
  "segs \<noteq> [] \<Longrightarrow> \<forall>seg \<in> set segs. sep \<notin> set seg \<Longrightarrow>
     strings_Split (strings_Join segs sep) sep = segs"
  by (induction segs sep rule: strings_Join.induct)
     (auto simp: strings_Split_segment strings_Split_append)

lemma Terminate_well_formed:
  assumes "getInstanceID (ProviderID node) = Inr instanceId"
  shows "Terminate p ctx node w =
           (case TerminateInstancesWithContext p [instanceId] of
              None \<Rightarrow> None
            | Some err \<Rightarrow>
                if isNotFound err then None
                else Some (Wrapped (''terminating instance '' @ nodeName node) (Api err)),
            w\<lparr> calls := calls w @ [TerminateInstancesCall [instanceId]] \<rparr>)"
  using assms by (simp add: Terminate_def Let_def split: option.splits)

text \<open>
  C9. \<open>getInstanceID\<close> returns the fifth segment of the provider identifier split at
  the slashes, and fails when there are fewer than five segments: an identifier put
  together from segments without a slash gives back the fifth of them. On a failure
  \<open>Terminate\<close> returns the error and calls nothing. Otherwise \<open>Terminate\<close> sends exactly
  one request, the termination of the parsed instance id, and returns success when the
  provider accepts it or answers with its not-found error, and the provider's error
  in any other case.
\<close>

theorem Terminate_parses_provider_id:
  "getInstanceID ''aws:///us-east-1a/i-0123'' = Inr ''i-0123'' \<and>
   getInstanceID ''garbage'' = Inl (MalformedProviderID ''garbage'') \<and>
   getInstanceID providerID =
     (if length (strings_Split providerID CHR ''/'') < 5 then Inl (MalformedProviderID providerID)
      else Inr (strings_Split providerID CHR ''/'' ! 4)) \<and>
   (segs \<noteq> [] \<and> (\<forall>seg \<in> set segs. CHR ''/'' \<notin> set seg) \<longrightarrow>
      getInstanceID (strings_Join segs CHR ''/'') =
        (if length segs < 5 then Inl (MalformedProviderID (strings_Join segs CHR ''/''))
         else Inr (segs ! 4))) \<and>
   (length (strings_Split (ProviderID node) CHR ''/'') < 5 \<longrightarrow>
      Terminate p ctx node w =
        (Some (Wrapped (''getting instance ID for node '' @ nodeName node)
                 (MalformedProviderID (ProviderID node))), w)) \<and>
   (getInstanceID (ProviderID node) = Inr instanceId \<longrightarrow>
      calls (snd (Terminate p ctx node w)) = calls w @ [TerminateInstancesCall [instanceId]] \<and>
      unavailableOfferings (snd (Terminate p ctx node w)) = unavailableOfferings w \<and>
      (TerminateInstancesWithContext p [instanceId] = None \<longrightarrow>
         fst (Terminate p ctx node w) = None) \<and>
      (\<forall>err. TerminateInstancesWithContext p [instanceId] = Some err \<longrightarrow>
         fst (Terminate p ctx node w) =
           (if isNotFound err then None
            else Some (Wrapped (''terminating instance '' @ nodeName node) (Api err)))))"
proof (intro conjI impI allI)
  show "getInstanceID ''aws:///us-east-1a/i-0123'' = Inr ''i-0123''" by code_simp
  show "getInstanceID ''garbage'' = Inl (MalformedProviderID ''garbage'')" by code_simp
  show "getInstanceID providerID =
     (if length (strings_Split providerID CHR ''/'') < 5 then Inl (MalformedProviderID providerID)
      else Inr (strings_Split providerID CHR ''/'' ! 4))"
    by (simp add: getInstanceID_def Let_def)
next
  assume "segs \<noteq> [] \<and> (\<forall>seg \<in> set segs. CHR ''/'' \<notin> set seg)"
  then have "strings_Split (strings_Join segs CHR ''/'') CHR ''/'' = segs"
    by (simp add: strings_Split_Join)
  then show "getInstanceID (strings_Join segs CHR ''/'') =
        (if length segs < 5 then Inl (MalformedProviderID (strings_Join segs CHR ''/''))
         else Inr (segs ! 4))"
    by (simp add: getInstanceID_def Let_def)
next
  assume "length (strings_Split (ProviderID node) CHR ''/'') < 5"
  then show "Terminate p ctx node w =
        (Some (Wrapped (''getting instance ID for node '' @ nodeName node)
                 (MalformedProviderID (ProviderID node))), w)"
    by (simp add: Terminate_def getInstanceID_def Let_def)
next
  assume a: "getInstanceID (ProviderID node) = Inr instanceId"
  note t = Terminate_well_formed [OF a, of p ctx w]
  show "calls (snd (Terminate p ctx node w)) = calls w @ [TerminateInstancesCall [instanceId]]"
    by (simp add: t)
  show "unavailableOfferings (snd (Terminate p ctx node w)) = unavailableOfferings w"
    by (simp add: t)
  show "fst (Terminate p ctx node w) = None"
    if "TerminateInstancesWithContext p [instanceId] = None"
    using that by (simp add: t)
  show "fst (Terminate p ctx node w) =
           (if isNotFound err then None
            else Some (Wrapped (''terminating instance '' @ nodeName node) (Api err)))"
    if "TerminateInstancesWithContext p [instanceId] = Some err" for err
    using that by (simp add: t)
qed

theorem Terminate_parses_provider_id_witness:
  "Terminate (exProvider (Inr (exFleetOutput [])) ''Shape1'' (Some (NotFound ''gone'')))
      exContext (exNodeDescriptor ''garbage'') exWorld =
     (Some (Wrapped ''getting instance ID for node n1'' (MalformedProviderID ''garbage'')), exWorld) \<and>
   Terminate (exProvider (Inr (exFleetOutput [])) ''Shape1'' (Some (NotFound ''gone'')))
      exContext (exNodeDescriptor ''aws:///us-east-1a/i-0123'') exWorld =
     (None, \<lparr> calls = [TerminateInstancesCall [''i-0123'']], unavailableOfferings = [] \<rparr>) \<and>
   Terminate (exProvider (Inr (exFleetOutput [])) ''Shape1'' (Some (OtherFailure ''denied'')))
      exContext (exNodeDescriptor ''aws:///us-east-1a/i-0123'') exWorld =
     (Some (Wrapped ''terminating instance n1'' (Api (OtherFailure ''denied''))),
      \<lparr> calls = [TerminateInstancesCall [''i-0123'']], unavailableOfferings = [] \<rparr>) \<and>
   getInstanceID (strings_Join [''aws:'', [], [], ''us-east-1a'', ''i-0123''] CHR ''/'')
     = Inr ''i-0123''"
proof -
  let ?gone = "exProvider (Inr (exFleetOutput [])) ''Shape1'' (Some (NotFound ''gone''))"
  let ?denied = "exProvider (Inr (exFleetOutput [])) ''Shape1'' (Some (OtherFailure ''denied''))"
  let ?bad = "exNodeDescriptor ''garbage''"
  let ?good = "exNodeDescriptor ''aws:///us-east-1a/i-0123''"
  let ?segs = "[''aws:'', [], [], ''us-east-1a'', ''i-0123'']"
  have a: "length (strings_Split (ProviderID ?bad) CHR ''/'') < 5"
    by code_simp
  have b: "getInstanceID (ProviderID ?good) = Inr ''i-0123''"
    by code_simp
  have c: "TerminateInstancesWithContext ?gone [''i-0123''] = Some (NotFound ''gone'')"
          "TerminateInstancesWithContext ?denied [''i-0123''] = Some (OtherFailure ''denied'')"
    by (simp_all add: exProvider_def)
  have s: "?segs \<noteq> [] \<and> (\<forall>seg \<in> set ?segs. CHR ''/'' \<notin> set seg)"
    by simp
  have n: "nodeName ?bad = ''n1''" "ProviderID ?bad = ''garbage''" "nodeName ?good = ''n1''"
          "calls exWorld = []" "unavailableOfferings exWorld = []"
    by (simp_all add: exNodeDescriptor_def exWorld_def)
  have bad: "Terminate ?gone exContext ?bad exWorld =
               (Some (Wrapped ''getting instance ID for node n1'' (MalformedProviderID ''garbage'')),
                exWorld)"
    using a n Terminate_parses_provider_id [where node = ?bad and p = ?gone and ctx = exContext
                                              and w = exWorld]
    by simp
  have j: "getInstanceID (strings_Join ?segs CHR ''/'') = Inr ''i-0123''"
    using s Terminate_parses_provider_id [where segs = ?segs] by simp
  have gone: "fst (Terminate ?gone exContext ?good exWorld) = None \<and>
              calls (snd (Terminate ?gone exContext ?good exWorld)) = [TerminateInstancesCall [''i-0123'']] \<and>
              unavailableOfferings (snd (Terminate ?gone exContext ?good exWorld)) = []"
    using b c n Terminate_parses_provider_id [where node = ?good and p = ?gone and ctx = exContext
                 and w = exWorld and instanceId = "''i-0123''"]
    by simp
  have denied: "fst (Terminate ?denied exContext ?good exWorld) =
                  Some (Wrapped ''terminating instance n1'' (Api (OtherFailure ''denied''))) \<and>
              calls (snd (Terminate ?denied exContext ?good exWorld)) = [TerminateInstancesCall [''i-0123'']] \<and>
              unavailableOfferings (snd (Terminate ?denied exContext ?good exWorld)) = []"
    using b c n Terminate_parses_provider_id [where node = ?good and p = ?denied and ctx = exContext
                 and w = exWorld and instanceId = "''i-0123''"]
    by simp
  have w: "x = (a, \<lparr> calls = cs, unavailableOfferings = us \<rparr>)"
    if "fst x = a \<and> calls (snd x) = cs \<and> unavailableOfferings (snd x) = us"
    for x :: "error option \<times> World" and a cs us
    using that by (cases x) auto
  from bad j w [OF gone] w [OF denied] show ?thesis by simp
qed

end
